theory Spec2Isabelle
  imports Complex_Main
begin

section \<open>Data model (src/types/index.ts)\<close>

text \<open>
  The interfaces of \<^verbatim>\<open>src/types/index.ts\<close> as records. Tick indices are
  integers. A JavaScript \<^verbatim>\<open>number\<close> that carries a percentage or a delay is
  modelled by the real number it denotes: comparison and \<^verbatim>\<open>Math.abs\<close> are exact
  on finite doubles, so the model agrees with the code on every finite value; the
  non-finite values (NaN, the infinities) are not represented.
  Fields that several interfaces share (\<^verbatim>\<open>currentTick\<close>, \<^verbatim>\<open>tickLower\<close>, ...)
  are told apart by the record name, as in \<open>Pool.currentTick\<close>.
\<close>

record BotConfig =
  privateKey :: string
  rpcUrl :: string
  poolId :: string
  positionId :: string
  rebalanceThresholdPercent :: real
  rangeWidthPercent :: real
  checkIntervalMs :: real
  maxSlippagePercent :: real
  maxGasPrice :: real
  minRetryDelayMs :: real
  maxRetryDelayMs :: real
  maxRetries :: real

record Position =
  id' :: string
  poolId :: string
  tickLower :: int
  tickUpper :: int
  liquidity :: string
  coinA :: string
  coinB :: string

record Pool =
  id' :: string
  coinTypeA :: string
  coinTypeB :: string
  currentSqrtPrice :: string
  currentTick :: int
  tickSpacing :: int
  feeRate :: real

record RebalanceDecision =
  shouldRebalance :: bool
  reason :: string
  currentTick :: int
  tickLower :: int
  tickUpper :: int
  priceDeviation :: real

record TickRange =
  tickLower :: int
  tickUpper :: int

section \<open>Number formatting: \<^verbatim>\<open>Number.prototype.toFixed\<close>\<close>

text \<open>
  The reason strings of the decision embed \<^verbatim>\<open>deviation.toFixed(2)\<close>. The
  function below follows the ECMAScript algorithm on the exact value of the number:
  a minus sign for a negative value; for a magnitude of at least \<open>10^21\<close> the
  host's \<^verbatim>\<open>Number::toString\<close> (a parameter, \<open>NumberToString\<close>); otherwise the
  integer \<open>n\<close> nearest to \<open>x * 10^f\<close> (the larger one on a tie), printed with a
  decimal point before its last \<open>f\<close> digits. \<open>toFixedDigits\<close> is the part of the
  algorithm that prints the magnitude; \<open>toFixed\<close> puts the sign in front of it.
\<close>

definition digit_char :: "nat \<Rightarrow> char" where
  "digit_char d = ''0123456789'' ! d"

fun string_of_nat :: "nat \<Rightarrow> string" where
  "string_of_nat n =
     (if n < 10 then [digit_char n]
      else string_of_nat (n div 10) @ [digit_char (n mod 10)])"

declare string_of_nat.simps [simp del]

definition toFixedDigits :: "(real \<Rightarrow> string) \<Rightarrow> real \<Rightarrow> nat \<Rightarrow> string" where
  "toFixedDigits NumberToString a f =
     (if a \<ge> 10 ^ 21 then NumberToString a
      else
        let n = nat \<lfloor>a * 10 ^ f + 1 / 2\<rfloor>;
            m = string_of_nat n
        in if f \<noteq> 0 then
             (let z = (if length m \<le> f
                       then replicate (f + 1 - length m) (CHR ''0'') @ m
                       else m);
                  k = length z
              in take (k - f) z @ ''.'' @ drop (k - f) z)
           else m)"

definition toFixed :: "(real \<Rightarrow> string) \<Rightarrow> real \<Rightarrow> nat \<Rightarrow> string" where
  "toFixed NumberToString x f =
     (let s = (if x < 0 then ''-'' else '''')
      in s @ toFixedDigits NumberToString \<bar>x\<bar> f)"

section \<open>The rebalance decision (PositionMonitor.checkRebalanceNeeded)\<close>

text \<open>
  \<^verbatim>\<open>checkRebalanceNeeded\<close> awaits the pool and the position from the chain
  service and then decides; the model is the decision as a function of the two
  fetched snapshots and of the configuration. The two helpers it imports from
  \<^verbatim>\<open>utils/tickMath\<close>, \<^verbatim>\<open>isTickInRange\<close> and
  \<^verbatim>\<open>calculatePriceDeviation\<close>, are not part of the sources at hand and are
  parameters of the model, in the argument order of their call sites. Log lines are
  left out; the \<^verbatim>\<open>catch\<close> block rethrows and adds no branch.
\<close>

definition checkRebalanceNeeded ::
  "(int \<Rightarrow> int \<Rightarrow> int \<Rightarrow> bool) \<Rightarrow> (int \<Rightarrow> int \<Rightarrow> int \<Rightarrow> real) \<Rightarrow> (real \<Rightarrow> string)
     \<Rightarrow> BotConfig \<Rightarrow> Pool \<Rightarrow> Position \<Rightarrow> RebalanceDecision" where
  "checkRebalanceNeeded isTickInRange calculatePriceDeviation NumberToString config pool position =
     (let inRange = isTickInRange (Pool.currentTick pool)
                      (Position.tickLower position) (Position.tickUpper position)
      in if inRange then
           \<lparr> shouldRebalance = False,
             reason = ''Position is in range'',
             currentTick = Pool.currentTick pool,
             tickLower = Position.tickLower position,
             tickUpper = Position.tickUpper position,
             priceDeviation = 0 \<rparr>
         else
           let deviation = calculatePriceDeviation (Pool.currentTick pool)
                             (Position.tickLower position) (Position.tickUpper position)
           in if \<bar>deviation\<bar> < rebalanceThresholdPercent config then
                \<lparr> shouldRebalance = False,
                  reason = ''Deviation '' @ toFixed NumberToString deviation 2 @ ''% below threshold'',
                  currentTick = Pool.currentTick pool,
                  tickLower = Position.tickLower position,
                  tickUpper = Position.tickUpper position,
                  priceDeviation = deviation \<rparr>
              else
                \<lparr> shouldRebalance = True,
                  reason = ''Price moved '' @ toFixed NumberToString deviation 2 @ ''% outside range'',
                  currentTick = Pool.currentTick pool,
                  tickLower = Position.tickLower position,
                  tickUpper = Position.tickUpper position,
                  priceDeviation = deviation \<rparr>)"

text \<open>
  Modelled from the spec: \<^verbatim>\<open>isTickInRange\<close> of \<^verbatim>\<open>utils/tickMath\<close>, which the
  sources at hand do not contain. Section 4.4 of the specification gives it as
  \<^verbatim>\<open>position.tickLower <= pool.currentTick < position.tickUpper\<close>, the upper bound
  exclusive. The arguments are in the order of the call: tick, lower, upper.
\<close>

definition spec_isTickInRange :: "int \<Rightarrow> int \<Rightarrow> int \<Rightarrow> bool" where
  "spec_isTickInRange tick lower upper \<longleftrightarrow> lower \<le> tick \<and> tick < upper"

text \<open>
  Modelled from the spec: \<^verbatim>\<open>calculatePriceDeviation\<close> of \<^verbatim>\<open>utils/tickMath\<close>,
  which the sources at hand do not contain. Section 4.4 of the specification: the signed
  percentage distance, in price space (price = 1.0001^tick), from the current tick to the
  violated boundary, negative below \<^verbatim>\<open>tickLower\<close> and positive above
  \<^verbatim>\<open>tickUpper\<close>; zero when no boundary is violated.
\<close>

definition tickPrice :: "int \<Rightarrow> real" where
  "tickPrice tick = (10001 / 10000) powi tick"

definition spec_calculatePriceDeviation :: "int \<Rightarrow> int \<Rightarrow> int \<Rightarrow> real" where
  "spec_calculatePriceDeviation tick lower upper =
     (if tick < lower then (tickPrice tick - tickPrice lower) / tickPrice lower * 100
      else if tick \<ge> upper then (tickPrice tick - tickPrice upper) / tickPrice upper * 100
      else 0)"

text \<open>Sample snapshots and the default configuration of the README, for the worked examples.\<close>

definition sampleConfig :: BotConfig where
  "sampleConfig =
     \<lparr> privateKey = '''', rpcUrl = ''https://fullnode.mainnet.sui.io:443'',
       BotConfig.poolId = ''0x1'', positionId = ''0x2'',
       rebalanceThresholdPercent = 2, rangeWidthPercent = 5, checkIntervalMs = 60000,
       maxSlippagePercent = 1, maxGasPrice = 1000000000,
       minRetryDelayMs = 1000, maxRetryDelayMs = 30000, maxRetries = 3 \<rparr>"

definition samplePool :: "int \<Rightarrow> Pool" where
  "samplePool tick =
     \<lparr> Pool.id' = ''0x1'', coinTypeA = ''0x2::sui::SUI'', coinTypeB = ''0x5d4b::coin::COIN'',
       currentSqrtPrice = ''18446744073709551616'', Pool.currentTick = tick,
       tickSpacing = 60, feeRate = 3000 \<rparr>"

definition samplePosition :: "int \<Rightarrow> int \<Rightarrow> Position" where
  "samplePosition lower upper =
     \<lparr> Position.id' = ''0x2'', Position.poolId = ''0x1'',
       Position.tickLower = lower, Position.tickUpper = upper,
       liquidity = ''1000000'', coinA = ''0x2::sui::SUI'', coinB = ''0x5d4b::coin::COIN'' \<rparr>"

text \<open>
  Two more samples for the worked reasons: the configuration with a threshold of half a
  percent, and a deviation helper that reports the magnitude alone, without a sign.
\<close>

definition lowThresholdConfig :: BotConfig where
  "lowThresholdConfig = sampleConfig \<lparr> rebalanceThresholdPercent := 1 / 2 \<rparr>"

definition magnitudeDeviation :: "int \<Rightarrow> int \<Rightarrow> int \<Rightarrow> real" where
  "magnitudeDeviation tick lower upper = \<bar>spec_calculatePriceDeviation tick lower upper\<bar>"

section \<open>Thrown errors\<close>

text \<open>
  A thrown JavaScript error is a value of the type \<open>error\<close>, and a function that may
  throw returns \<open>error + 'a\<close>, \<open>Inl\<close> for the error. \<open>TickOutOfBounds tick lo hi\<close> is
  the \<^verbatim>\<open>Error\<close> with the message
  \<^verbatim>\<open>Tick ${tick} is out of bounds [${MIN_TICK}, ${MAX_TICK}]\<close>, kept with the three
  interpolated values; \<open>InvalidRangeError\<close> is the error kind of that name in the
  specification; \<open>Thrown msg\<close> is any other thrown value, by its message.
\<close>

datatype error =
    TickOutOfBounds int int int
  | InvalidRangeError
  | Thrown string

section \<open>Expected amounts (RebalanceService.calculateExpectedAmounts)\<close>

text \<open>
  \<^verbatim>\<open>calculateExpectedAmounts\<close> of \<^verbatim>\<open>rebalanceService.ts.backup\<close>, with bigints as
  integers. The host conversion \<^verbatim>\<open>BigInt(string)\<close> (which throws a
  \<^verbatim>\<open>SyntaxError\<close> on a string that is no integer literal) and the three helpers
  imported from \<^verbatim>\<open>utils/tickMath\<close>, which the sources at hand do not contain, are
  parameters; each may throw, and the function catches nothing, so the first error
  ends the call. The statements run in the order of the source.
\<close>

record Amounts =
  amountA :: int
  amountB :: int

definition calculateExpectedAmounts ::
  "(string \<Rightarrow> error + int) \<Rightarrow> (int \<Rightarrow> error + int)
     \<Rightarrow> (int \<Rightarrow> int \<Rightarrow> int \<Rightarrow> error + int) \<Rightarrow> (int \<Rightarrow> int \<Rightarrow> int \<Rightarrow> error + int)
     \<Rightarrow> Pool \<Rightarrow> Position \<Rightarrow> error + Amounts" where
  "calculateExpectedAmounts BigInt tickToSqrtPrice getAmountAFromLiquidity getAmountBFromLiquidity
       pool position =
     (case BigInt (currentSqrtPrice pool) of Inl e \<Rightarrow> Inl e | Inr sqrtPriceCurrent \<Rightarrow>
      case tickToSqrtPrice (Position.tickLower position) of Inl e \<Rightarrow> Inl e | Inr sqrtPriceLower \<Rightarrow>
      case tickToSqrtPrice (Position.tickUpper position) of Inl e \<Rightarrow> Inl e | Inr sqrtPriceUpper \<Rightarrow>
      case BigInt (liquidity position) of Inl e \<Rightarrow> Inl e | Inr liquidity' \<Rightarrow>
        if sqrtPriceCurrent \<le> sqrtPriceLower then
          (case getAmountAFromLiquidity sqrtPriceLower sqrtPriceUpper liquidity' of
             Inl e \<Rightarrow> Inl e
           | Inr a \<Rightarrow> Inr \<lparr> amountA = a, amountB = 0 \<rparr>)
        else if sqrtPriceCurrent \<ge> sqrtPriceUpper then
          (case getAmountBFromLiquidity sqrtPriceLower sqrtPriceUpper liquidity' of
             Inl e \<Rightarrow> Inl e
           | Inr b \<Rightarrow> Inr \<lparr> amountA = 0, amountB = b \<rparr>)
        else
          (case getAmountAFromLiquidity sqrtPriceCurrent sqrtPriceUpper liquidity' of
             Inl e \<Rightarrow> Inl e
           | Inr a \<Rightarrow>
               (case getAmountBFromLiquidity sqrtPriceLower sqrtPriceCurrent liquidity' of
                  Inl e \<Rightarrow> Inl e
                | Inr b \<Rightarrow> Inr \<lparr> amountA = a, amountB = b \<rparr>)))"

text \<open>
  Sample helpers for the worked examples: the conversion of a plain decimal literal
  (the host also accepts a sign, white space and the prefixes 0x, 0o and 0b),
  a table of three ticks (the integer part of \<open>sqrt (1.0001^tick) * 2^64\<close>), and the two
  amount formulas of section 4.2 of the specification.
\<close>

fun nat_of_digits :: "nat \<Rightarrow> string \<Rightarrow> nat option" where
  "nat_of_digits acc [] = Some acc"
| "nat_of_digits acc (c # cs) =
     (if c \<in> set ''0123456789''
      then nat_of_digits (10 * acc + (of_char c - 48)) cs
      else None)"

definition sampleBigInt :: "string \<Rightarrow> error + int" where
  "sampleBigInt s =
     (case nat_of_digits 0 s of
        Some n \<Rightarrow> Inr (int n)
      | None \<Rightarrow> Inl (Thrown ''SyntaxError: Cannot convert to a BigInt''))"

definition sampleTickToSqrtPrice :: "int \<Rightarrow> error + int" where
  "sampleTickToSqrtPrice tick =
     (if tick = -1000 then Inr 17547129613991598781
      else if tick = 0 then Inr 18446744073709551616
      else if tick = 1000 then Inr 19392480388906836277
      else Inl (Thrown ''tick not in the sample table''))"

definition sampleAmountA :: "int \<Rightarrow> int \<Rightarrow> int \<Rightarrow> error + int" where
  "sampleAmountA sqrtA sqrtB l = Inr (l * (sqrtB - sqrtA) * 2 ^ 64 div (sqrtA * sqrtB))"

definition sampleAmountB :: "int \<Rightarrow> int \<Rightarrow> int \<Rightarrow> error + int" where
  "sampleAmountB sqrtA sqrtB l = Inr (l * (sqrtB - sqrtA) div 2 ^ 64)"

section \<open>Tick and square-root price (tickIndexToSqrtPriceX64, sqrtPriceX64ToTickIndex)\<close>

subsection \<open>The arithmetic of decimal.js and bn.js\<close>

text \<open>
  The tick-math module (\<^verbatim>\<open>src/utils/tickMath.ts\<close>, whose text the sources carry
  after \<^verbatim>\<open>Position.spec.ts\<close>) computes with the \<^verbatim>\<open>Decimal\<close> class of
  decimal.js and leaves its configuration at the defaults: 20 significant digits,
  rounding mode \<^verbatim>\<open>ROUND_HALF_UP\<close> (to nearest, ties away from zero). A
  \<^verbatim>\<open>Decimal\<close> is modelled by the real number it denotes, and an operation of the
  library by the exact operation followed by the rounding of the result to the
  precision (\<open>finalise\<close>). The library documents its results as correctly rounded,
  for \<^verbatim>\<open>pow\<close> and \<^verbatim>\<open>log\<close> up to one unit in the last digit in rare cases;
  the properties proved below rest only on each operation being within one unit in the
  last digit of the exact result, or on results that are exact.
  \<^verbatim>\<open>new Decimal(1.0001)\<close> is the decimal fraction \<open>10001 / 10000\<close>, since the
  constructor reads the shortest decimal form of the double.
  \<^verbatim>\<open>new BN(d.toFixed(0))\<close> prints the decimal, rounded to an integer in the same
  rounding mode, and reads the digits back: \<open>BN_of_toFixed0\<close>.
\<close>

definition Decimal_precision :: int where
  "Decimal_precision = 20"

definition round_half_up :: "real \<Rightarrow> int" where
  "round_half_up x = (if 0 \<le> x then \<lfloor>x + 1 / 2\<rfloor> else - \<lfloor>- x + 1 / 2\<rfloor>)"

definition finalise :: "real \<Rightarrow> real" where
  "finalise x =
     (if x = 0 then 0
      else let e = \<lfloor>log 10 \<bar>x\<bar>\<rfloor>;
               ulp = 10 powi (e - Decimal_precision + 1)
           in of_int (round_half_up (x / ulp)) * ulp)"

definition Decimal_pow :: "real \<Rightarrow> int \<Rightarrow> real" where
  "Decimal_pow x n = finalise (x powi n)"

definition Decimal_sqrt :: "real \<Rightarrow> real" where
  "Decimal_sqrt x = finalise (sqrt x)"

definition Decimal_mul :: "real \<Rightarrow> real \<Rightarrow> real" where
  "Decimal_mul x y = finalise (x * y)"

definition Decimal_div :: "real \<Rightarrow> real \<Rightarrow> real" where
  "Decimal_div x y = finalise (x / y)"

definition Decimal_log :: "real \<Rightarrow> real \<Rightarrow> real" where
  "Decimal_log x base = finalise (log base x)"

text \<open>
  \<^verbatim>\<open>d.toNumber()\<close> is the double nearest to the decimal, ties to the even
  significand: the rounding to 53 significant bits, in the range of the normal doubles,
  where the arguments of this module lie. \<^verbatim>\<open>Math.round\<close> is the integer nearest
  to its argument, the larger one on a tie.
\<close>

definition round_half_even :: "real \<Rightarrow> int" where
  "round_half_even y =
     (let f = \<lfloor>y\<rfloor>
      in if y - of_int f < 1 / 2 then f
         else if y - of_int f > 1 / 2 then f + 1
         else if even f then f else f + 1)"

definition Decimal_toNumber :: "real \<Rightarrow> real" where
  "Decimal_toNumber x =
     (if x = 0 then 0
      else let e = \<lfloor>log 2 \<bar>x\<bar>\<rfloor>;
               ulp = 2 powi (e - 52)
           in of_int (round_half_even (x / ulp)) * ulp)"

definition Math_round :: "real \<Rightarrow> int" where
  "Math_round x = \<lfloor>x + 1 / 2\<rfloor>"

definition BN_of_toFixed0 :: "real \<Rightarrow> int" where
  "BN_of_toFixed0 x = round_half_up x"

subsection \<open>tickIndexToSqrtPriceX64\<close>

definition MIN_TICK :: int where
  "MIN_TICK = -443636"

definition MAX_TICK :: int where
  "MAX_TICK = 443636"

definition tickIndexToSqrtPriceX64 :: "int \<Rightarrow> error + int" where
  "tickIndexToSqrtPriceX64 tick =
     (if tick < MIN_TICK \<or> tick > MAX_TICK then Inl (TickOutOfBounds tick MIN_TICK MAX_TICK)
      else
        let price = Decimal_pow (10001 / 10000) tick;
            sqrtPrice = Decimal_sqrt price;
            sqrtPriceX64 = Decimal_mul sqrtPrice (Decimal_pow 2 64)
        in Inr (BN_of_toFixed0 sqrtPriceX64))"

text \<open>
  The exact square-root price of a tick, \<open>sqrt (1.0001^tick) * 2^64\<close>, which the
  decimal arithmetic approximates; it serves to state the accuracy of the conversions.
\<close>

definition exactSqrtPriceX64 :: "int \<Rightarrow> real" where
  "exactSqrtPriceX64 tick = sqrt ((10001 / 10000) powi tick) * 2 ^ 64"

subsection \<open>sqrtPriceX64ToTickIndex\<close>

text \<open>
  \<^verbatim>\<open>new Decimal(sqrtPriceX64.toString())\<close> is the integer itself: the constructor
  keeps every digit of its argument. The model is for a positive square-root price; at
  zero the code yields \<^verbatim>\<open>-Infinity\<close>, which the integer result cannot hold.
\<close>

definition sqrtPriceX64ToTickIndex :: "int \<Rightarrow> int" where
  "sqrtPriceX64ToTickIndex sqrtPriceX64 =
     (let sqrtPriceDecimal = Decimal_div (of_int sqrtPriceX64) (Decimal_pow 2 64);
          price = Decimal_pow sqrtPriceDecimal 2;
          tick = Decimal_log price (10001 / 10000)
      in Math_round (Decimal_toNumber tick))"

section \<open>The new range (calculateTickRange)\<close>

text \<open>
  Modelled from the spec: \<^verbatim>\<open>calculateTickRange\<close> of \<^verbatim>\<open>utils/tickMath\<close>, which
  the sources at hand call (\<^verbatim>\<open>rebalanceService.ts\<close>, \<^verbatim>\<open>rebalanceService.ts.backup\<close>)
  but do not contain. Section 4.3 of the specification, step by step: the half width
  in ticks, \<^verbatim>\<open>round(log(1 + widthPercent/200) / log(1.0001))\<close>; the raw bounds
  centred on the current tick; the lower bound aligned down and the upper bound aligned
  up to a multiple of the tick spacing, each shifted outward by one more spacing when it
  falls on the current tick; and the validation, which fails with
  \<^verbatim>\<open>InvalidRangeError\<close> unless the bounds lie in [MIN_TICK, MAX_TICK] and
  \<^verbatim>\<open>tickLower < tickUpper\<close>.
\<close>

definition halfWidthTicks :: "real \<Rightarrow> int" where
  "halfWidthTicks widthPercent = round (ln (1 + widthPercent / 200) / ln (10001 / 10000))"

definition alignDown :: "int \<Rightarrow> int \<Rightarrow> int" where
  "alignDown tick spacing = (tick div spacing) * spacing"

definition alignUp :: "int \<Rightarrow> int \<Rightarrow> int" where
  "alignUp tick spacing = - ((- tick) div spacing) * spacing"

definition alignedRange :: "int \<Rightarrow> int \<Rightarrow> int \<Rightarrow> error + TickRange" where
  "alignedRange tick halfWidth spacing =
     (let rawLower = tick - halfWidth;
          rawUpper = tick + halfWidth;
          lower0 = alignDown rawLower spacing;
          upper0 = alignUp rawUpper spacing;
          lower = (if lower0 = tick then lower0 - spacing else lower0);
          upper = (if upper0 = tick then upper0 + spacing else upper0)
      in if MIN_TICK \<le> lower \<and> upper \<le> MAX_TICK \<and> lower < upper
         then Inr \<lparr> TickRange.tickLower = lower, TickRange.tickUpper = upper \<rparr>
         else Inl InvalidRangeError)"

definition calculateTickRange :: "int \<Rightarrow> real \<Rightarrow> int \<Rightarrow> error + TickRange" where
  "calculateTickRange tick widthPercent spacing =
     alignedRange tick (halfWidthTicks widthPercent) spacing"

text \<open>
  The caller's own check of the new range, lines 46 to 49 of
  \<^verbatim>\<open>RebalanceService.rebalance\<close> in \<^verbatim>\<open>rebalanceService.ts.backup\<close>:
  \<^verbatim>\<open>if (newRange.tickLower % pool.tickSpacing !== 0 || newRange.tickUpper % pool.tickSpacing !== 0) throw ...\<close>.
  \<open>jsRemainder\<close> is the operator \<^verbatim>\<open>%\<close> on integers, whose result takes the
  sign of the dividend; \<open>None\<close> is the NaN of a zero divisor, which differs from 0.
\<close>

definition jsRemainder :: "int \<Rightarrow> int \<Rightarrow> int option" where
  "jsRemainder a b = (if b = 0 then None else Some (sgn a * (\<bar>a\<bar> mod \<bar>b\<bar>)))"

definition checkNewRangeAligned :: "TickRange \<Rightarrow> int \<Rightarrow> error + TickRange" where
  "checkNewRangeAligned newRange spacing =
     (if jsRemainder (TickRange.tickLower newRange) spacing \<noteq> Some 0
         \<or> jsRemainder (TickRange.tickUpper newRange) spacing \<noteq> Some 0
      then Inl (Thrown ''New range ticks not aligned to tick spacing'')
      else Inr newRange)"

section \<open>Properties of the rebalance decision\<close>

text \<open>
  C1. When the current tick lies in the position's range, lower bound inclusive and
  upper bound exclusive, the decision is not to rebalance and the reported deviation is
  zero, whatever the threshold, the deviation helper and the rest of the configuration.
  The range test is the one the specification gives for \<^verbatim>\<open>isTickInRange\<close>.
\<close>

theorem checkRebalanceNeeded_in_range:
  assumes "Position.tickLower position \<le> Pool.currentTick pool"
      and "Pool.currentTick pool < Position.tickUpper position"
  shows "shouldRebalance
           (checkRebalanceNeeded spec_isTickInRange calculatePriceDeviation NumberToString
              config pool position) = False
       \<and> priceDeviation
           (checkRebalanceNeeded spec_isTickInRange calculatePriceDeviation NumberToString
              config pool position) = 0"
  using assms by (simp add: checkRebalanceNeeded_def spec_isTickInRange_def)

theorem checkRebalanceNeeded_in_range_witness:
  "Position.tickLower (samplePosition (-1000) 1000) \<le> Pool.currentTick (samplePool 0)
   \<and> Pool.currentTick (samplePool 0) < Position.tickUpper (samplePosition (-1000) 1000)
   \<and> shouldRebalance
        (checkRebalanceNeeded spec_isTickInRange spec_calculatePriceDeviation (\<lambda>x. ''1e+21'')
           sampleConfig (samplePool 0) (samplePosition (-1000) 1000)) = False
   \<and> priceDeviation
        (checkRebalanceNeeded spec_isTickInRange spec_calculatePriceDeviation (\<lambda>x. ''1e+21'')
           sampleConfig (samplePool 0) (samplePosition (-1000) 1000)) = 0"
proof -
  have lo: "Position.tickLower (samplePosition (-1000) 1000) \<le> Pool.currentTick (samplePool 0)"
    by (simp add: samplePosition_def samplePool_def)
  have hi: "Pool.currentTick (samplePool 0) < Position.tickUpper (samplePosition (-1000) 1000)"
    by (simp add: samplePosition_def samplePool_def)
  from checkRebalanceNeeded_in_range [OF lo hi] lo hi show ?thesis
    by blast
qed

text \<open>
  C2. When the range test reports the current tick outside the position's range (for
  the specification's test: below \<^verbatim>\<open>tickLower\<close>, or at or above
  \<^verbatim>\<open>tickUpper\<close>), the decision is to rebalance exactly when the magnitude of
  the computed deviation is at least the configured threshold; below the threshold the
  decision is not to rebalance and it carries the computed deviation. This holds for
  every implementation of the two helpers.
\<close>

theorem checkRebalanceNeeded_out_of_range:
  assumes "\<not> isTickInRange (Pool.currentTick pool)
               (Position.tickLower position) (Position.tickUpper position)"
  shows "(shouldRebalance
            (checkRebalanceNeeded isTickInRange calculatePriceDeviation NumberToString
               config pool position)
          \<longleftrightarrow> \<bar>calculatePriceDeviation (Pool.currentTick pool)
                 (Position.tickLower position) (Position.tickUpper position)\<bar>
               \<ge> rebalanceThresholdPercent config)
       \<and> (\<bar>calculatePriceDeviation (Pool.currentTick pool)
              (Position.tickLower position) (Position.tickUpper position)\<bar>
            < rebalanceThresholdPercent config
          \<longrightarrow> shouldRebalance
                (checkRebalanceNeeded isTickInRange calculatePriceDeviation NumberToString
                   config pool position) = False
            \<and> priceDeviation
                (checkRebalanceNeeded isTickInRange calculatePriceDeviation NumberToString
                   config pool position)
              = calculatePriceDeviation (Pool.currentTick pool)
                  (Position.tickLower position) (Position.tickUpper position))"
  using assms by (simp add: checkRebalanceNeeded_def Let_def)

theorem checkRebalanceNeeded_out_of_range_witness:
  "\<not> spec_isTickInRange (Pool.currentTick (samplePool 50))
       (Position.tickLower (samplePosition 100 2000)) (Position.tickUpper (samplePosition 100 2000))
   \<and> (shouldRebalance
         (checkRebalanceNeeded spec_isTickInRange spec_calculatePriceDeviation (\<lambda>x. ''1e+21'')
            sampleConfig (samplePool 50) (samplePosition 100 2000))
        \<longleftrightarrow> \<bar>spec_calculatePriceDeviation 50 100 2000\<bar> \<ge> 2)"
proof -
  have out: "\<not> spec_isTickInRange (Pool.currentTick (samplePool 50))
       (Position.tickLower (samplePosition 100 2000)) (Position.tickUpper (samplePosition 100 2000))"
    by (simp add: spec_isTickInRange_def samplePool_def samplePosition_def)
  from checkRebalanceNeeded_out_of_range
         [of spec_isTickInRange "samplePool 50" "samplePosition 100 2000"
             spec_calculatePriceDeviation "\<lambda>x. ''1e+21''" sampleConfig, OF out]
  have "shouldRebalance
         (checkRebalanceNeeded spec_isTickInRange spec_calculatePriceDeviation (\<lambda>x. ''1e+21'')
            sampleConfig (samplePool 50) (samplePosition 100 2000))
        \<longleftrightarrow> \<bar>spec_calculatePriceDeviation 50 100 2000\<bar> \<ge> 2"
    by (simp add: samplePool_def samplePosition_def sampleConfig_def)
  with out show ?thesis by blast
qed

subsection \<open>The reason of a triggered decision\<close>

lemma tickPrice_pos: "0 < tickPrice t"
  by (simp add: tickPrice_def)

lemma tickPrice_strict_mono: "a < b \<Longrightarrow> tickPrice a < tickPrice b"
  by (simp add: tickPrice_def power_int_strict_increasing)

lemma tickPrice_mono: "a \<le> b \<Longrightarrow> tickPrice a \<le> tickPrice b"
  by (simp add: tickPrice_def power_int_increasing)

lemma spec_deviation_below:
  "tick < lower \<Longrightarrow> spec_calculatePriceDeviation tick lower upper < 0"
  using tickPrice_strict_mono [of tick lower] tickPrice_pos [of lower]
  by (simp add: spec_calculatePriceDeviation_def divide_less_0_iff)

lemma spec_deviation_above:
  "\<not> tick < lower \<Longrightarrow> upper \<le> tick \<Longrightarrow> 0 \<le> spec_calculatePriceDeviation tick lower upper"
  using tickPrice_mono [of upper tick] tickPrice_pos [of upper]
  by (simp add: spec_calculatePriceDeviation_def)

lemma tickPrice_100_lower: "101 / 100 \<le> tickPrice 100"
  using Bernoulli_inequality [of "1 / 10000" 100] by (simp add: tickPrice_def)

lemma string_of_nat_nonempty: "string_of_nat n \<noteq> []"
  by (subst string_of_nat.simps) simp

lemma string_of_nat_small: "n < 10 \<Longrightarrow> string_of_nat n = [digit_char n]"
  by (subst string_of_nat.simps) simp

lemma string_of_nat_step:
  "10 \<le> n \<Longrightarrow> string_of_nat n = string_of_nat (n div 10) @ [digit_char (n mod 10)]"
  by (subst string_of_nat.simps) simp

lemma two_decimals_layout:
  fixes n :: nat
  defines "m \<equiv> string_of_nat n"
  defines "z \<equiv> (if length m \<le> 2 then replicate (2 + 1 - length m) (CHR ''0'') @ m else m)"
  shows "take (length z - 2) z @ ''.'' @ drop (length z - 2) z
         = string_of_nat (n div 100) @ ''.'' @ [digit_char (n div 10 mod 10), digit_char (n mod 10)]"
proof -
  consider "n < 10" | "10 \<le> n" "n < 100" | "100 \<le> n" by linarith
  then show ?thesis
  proof cases
    case 1
    then have "m = [digit_char n]" by (simp add: m_def string_of_nat_small)
    moreover from 1 have "n div 100 = 0" "n div 10 mod 10 = 0" "n mod 10 = n" by simp_all
    ultimately show ?thesis
      by (simp add: z_def string_of_nat_small numeral_2_eq_2 digit_char_def)
  next
    case 2
    then have "n div 10 < 10" by simp
    with 2 have "m = [digit_char (n div 10), digit_char (n mod 10)]"
      by (simp add: m_def string_of_nat_step string_of_nat_small)
    moreover from 2 have "n div 100 = 0" "n div 10 mod 10 = n div 10" by simp_all
    ultimately show ?thesis
      by (simp add: z_def string_of_nat_small digit_char_def)
  next
    case 3
    then have a: "10 \<le> n" and b: "10 \<le> n div 10" by simp_all
    have "n div 10 div 10 = n div 100" by (simp add: div_mult2_eq)
    with a b have m: "m = string_of_nat (n div 100) @ [digit_char (n div 10 mod 10), digit_char (n mod 10)]"
      by (simp add: m_def string_of_nat_step [of n] string_of_nat_step [of "n div 10"])
    have "string_of_nat (n div 100) \<noteq> []" by (rule string_of_nat_nonempty)
    then have "0 < length (string_of_nat (n div 100))" by simp
    then show ?thesis by (simp add: z_def m)
  qed
qed

lemma toFixedDigits_two_decimals:
  assumes "a < 10 ^ 21"
  shows "toFixedDigits NumberToString a 2
         = (let n = nat \<lfloor>a * 100 + 1 / 2\<rfloor>
            in string_of_nat (n div 100) @ ''.''
               @ [digit_char (n div 10 mod 10), digit_char (n mod 10)])"
  using assms two_decimals_layout [of "nat \<lfloor>a * 100 + 1 / 2\<rfloor>"]
  by (simp add: toFixedDigits_def Let_def)


lemma toFixed_two_decimals:
  assumes "\<bar>d\<bar> < 10 ^ 21"
  shows "toFixed NumberToString d 2
         = (if d < 0 then ''-'' else '''')
           @ string_of_nat (nat \<lfloor>\<bar>d\<bar> * 100 + 1 / 2\<rfloor> div 100) @ ''.''
           @ [digit_char (nat \<lfloor>\<bar>d\<bar> * 100 + 1 / 2\<rfloor> div 10 mod 10),
              digit_char (nat \<lfloor>\<bar>d\<bar> * 100 + 1 / 2\<rfloor> mod 10)]"
  using toFixedDigits_two_decimals [OF assms, of NumberToString]
  by (simp add: toFixed_def Let_def)

lemma tick_base_100_upper: "tickPrice 100 < 10100499 / 10000000"
proof -
  have n: "(10001::real) ^ 100 * 10000000 < 10100499 * 10000 ^ 100" by simp
  have "tickPrice 100 = 10001 ^ 100 / 10000 ^ 100"
    by (simp add: tickPrice_def power_divide del: power_numeral)
  also have "\<dots> < 10100499 / 10000000"
    using n by (simp add: divide_less_eq del: power_numeral)
  finally show ?thesis .
qed

lemma tick_base_99_lower: "10099 / 10000 \<le> tickPrice 99"
  using Bernoulli_inequality [of "1 / 10000" 99] by (simp add: tickPrice_def)

lemma tick_base_99_upper: "tickPrice 99 < 100995 / 100000"
proof -
  have n: "(10001::real) ^ 99 * 100000 < 100995 * 10000 ^ 99" by simp
  have "tickPrice 99 = 10001 ^ 99 / 10000 ^ 99"
    by (simp add: tickPrice_def power_divide del: power_numeral)
  also have "\<dots> < 100995 / 100000"
    using n by (simp add: divide_less_eq del: power_numeral)
  finally show ?thesis .
qed

lemma deviation_below_value:
  "spec_calculatePriceDeviation 0 100 2000 = (1 - tickPrice 100) / tickPrice 100 * 100"
  by (simp add: spec_calculatePriceDeviation_def tickPrice_def [of 0])

lemma deviation_below_bounds:
  "spec_calculatePriceDeviation 0 100 2000 < 0"
  "985 / 1000 \<le> \<bar>spec_calculatePriceDeviation 0 100 2000\<bar>"
  "\<bar>spec_calculatePriceDeviation 0 100 2000\<bar> < 995 / 1000"
proof -
  let ?P = "tickPrice 100"
  have lo: "101 / 100 \<le> ?P" by (rule tickPrice_100_lower)
  have hi: "?P < 10100499 / 10000000" by (rule tick_base_100_upper)
  have "1 - ?P = - (?P - 1)" by simp
  then have "(1 - ?P) / ?P * 100 = - ((?P - 1) / ?P * 100)"
    by (simp only: minus_divide_left mult_minus_left)
  then have d: "spec_calculatePriceDeviation 0 100 2000 = - ((?P - 1) / ?P * 100)"
    by (simp only: deviation_below_value)
  have a: "985 / 1000 \<le> (?P - 1) / ?P * 100" using lo by (simp add: field_simps)
  have b: "(?P - 1) / ?P * 100 < 995 / 1000" using lo hi by (simp add: field_simps)
  from a show "spec_calculatePriceDeviation 0 100 2000 < 0" unfolding d by linarith
  from a show "985 / 1000 \<le> \<bar>spec_calculatePriceDeviation 0 100 2000\<bar>" unfolding d by linarith
  from a b show "\<bar>spec_calculatePriceDeviation 0 100 2000\<bar> < 995 / 1000" unfolding d by linarith
qed

lemma deviation_above_value:
  "spec_calculatePriceDeviation (-1) (-2000) (-100) = (tickPrice 99 - 1) * 100"
proof -
  have "tickPrice (-1) = tickPrice 99 * tickPrice (-100)"
    using power_int_add [of "10001 / 10000 :: real" 99 "-100"] by (simp add: tickPrice_def)
  moreover have "0 < tickPrice (-100)" by (rule tickPrice_pos)
  ultimately show ?thesis
    by (simp add: spec_calculatePriceDeviation_def field_simps)
qed

lemma deviation_above_bounds:
  "0 \<le> spec_calculatePriceDeviation (-1) (-2000) (-100)"
  "985 / 1000 \<le> \<bar>spec_calculatePriceDeviation (-1) (-2000) (-100)\<bar>"
  "\<bar>spec_calculatePriceDeviation (-1) (-2000) (-100)\<bar> < 995 / 1000"
  using tick_base_99_lower tick_base_99_upper
  by (simp_all add: deviation_above_value)

lemma two_decimals_99:
  assumes "985 / 1000 \<le> a" "a < 995 / 1000"
  shows "nat \<lfloor>a * 100 + 1 / 2\<rfloor> = 99"
proof -
  from assms have "\<lfloor>a * 100 + 1 / 2\<rfloor> = 99" by (simp add: floor_eq_iff)
  then show ?thesis by simp
qed

lemma string_of_nat_0: "string_of_nat 0 = ''0''"
  by (simp add: string_of_nat_small digit_char_def)



lemma toFixed_099:
  assumes "985 / 1000 \<le> \<bar>d\<bar>" "\<bar>d\<bar> < 995 / 1000"
  shows "toFixed NumberToString d 2 = (if d < 0 then ''-'' else '''') @ ''0.99''"
proof -
  from assms(2) have small: "\<bar>d\<bar> < 10 ^ 21" by simp
  have n: "nat \<lfloor>\<bar>d\<bar> * 100 + 1 / 2\<rfloor> = 99" using assms by (rule two_decimals_99)
  show ?thesis
    by (simp add: toFixed_two_decimals [OF small] n string_of_nat_0 digit_char_def)
qed

lemma triggered_reason:
  assumes "\<not> isTickInRange (Pool.currentTick pool)
               (Position.tickLower position) (Position.tickUpper position)"
      and "rebalanceThresholdPercent config
           \<le> \<bar>calculatePriceDeviation (Pool.currentTick pool)
                (Position.tickLower position) (Position.tickUpper position)\<bar>"
  shows "shouldRebalance
           (checkRebalanceNeeded isTickInRange calculatePriceDeviation NumberToString
              config pool position)"
    and "reason
           (checkRebalanceNeeded isTickInRange calculatePriceDeviation NumberToString
              config pool position)
         = ''Price moved ''
           @ toFixed NumberToString
               (calculatePriceDeviation (Pool.currentTick pool)
                  (Position.tickLower position) (Position.tickUpper position)) 2
           @ ''% outside range''"
  using assms by (simp_all add: checkRebalanceNeeded_def Let_def)

text \<open>
  C9. A triggered decision carries the one reason template of the code,
  \<^verbatim>\<open>Price moved <deviation.toFixed(2)>% outside range\<close>, around the deviation that
  the helper computed, which is also the decision's \<^verbatim>\<open>priceDeviation\<close>: a minus
  sign when that deviation is negative, then its magnitude rounded to two decimals
  (the integer part, a point, two digits). The template is the same for a breach below
  the lower boundary and for one above the upper boundary and names neither; the
  direction shows only as the sign the helper gave the deviation.
\<close>

theorem checkRebalanceNeeded_reason_template:
  assumes "shouldRebalance
             (checkRebalanceNeeded isTickInRange calculatePriceDeviation NumberToString
                config pool position)"
  shows "priceDeviation
           (checkRebalanceNeeded isTickInRange calculatePriceDeviation NumberToString
              config pool position)
         = calculatePriceDeviation (Pool.currentTick pool)
             (Position.tickLower position) (Position.tickUpper position)
       \<and> reason
           (checkRebalanceNeeded isTickInRange calculatePriceDeviation NumberToString
              config pool position)
         = ''Price moved ''
           @ toFixed NumberToString
               (calculatePriceDeviation (Pool.currentTick pool)
                  (Position.tickLower position) (Position.tickUpper position)) 2
           @ ''% outside range''
       \<and> (\<bar>calculatePriceDeviation (Pool.currentTick pool)
              (Position.tickLower position) (Position.tickUpper position)\<bar> < 10 ^ 21 \<longrightarrow>
          reason
            (checkRebalanceNeeded isTickInRange calculatePriceDeviation NumberToString
               config pool position)
          = ''Price moved ''
            @ (if calculatePriceDeviation (Pool.currentTick pool)
                    (Position.tickLower position) (Position.tickUpper position) < 0
               then ''-'' else '''')
            @ string_of_nat
                (nat \<lfloor>\<bar>calculatePriceDeviation (Pool.currentTick pool)
                         (Position.tickLower position) (Position.tickUpper position)\<bar> * 100
                      + 1 / 2\<rfloor> div 100)
            @ ''.''
            @ [digit_char
                 (nat \<lfloor>\<bar>calculatePriceDeviation (Pool.currentTick pool)
                          (Position.tickLower position) (Position.tickUpper position)\<bar> * 100
                       + 1 / 2\<rfloor> div 10 mod 10),
               digit_char
                 (nat \<lfloor>\<bar>calculatePriceDeviation (Pool.currentTick pool)
                          (Position.tickLower position) (Position.tickUpper position)\<bar> * 100
                       + 1 / 2\<rfloor> mod 10)]
            @ ''% outside range'')"
proof -
  let ?d = "calculatePriceDeviation (Pool.currentTick pool)
              (Position.tickLower position) (Position.tickUpper position)"
  let ?R = "checkRebalanceNeeded isTickInRange calculatePriceDeviation NumberToString
              config pool position"
  from assms have out: "\<not> isTickInRange (Pool.currentTick pool)
                            (Position.tickLower position) (Position.tickUpper position)"
    by (auto simp: checkRebalanceNeeded_def Let_def split: if_splits)
  from assms out have trig: "\<not> \<bar>?d\<bar> < rebalanceThresholdPercent config"
    by (auto simp: checkRebalanceNeeded_def Let_def split: if_splits)
  from out trig have dev: "priceDeviation ?R = ?d"
    by (simp add: checkRebalanceNeeded_def Let_def)
  from out trig have rsn: "reason ?R = ''Price moved '' @ toFixed NumberToString ?d 2 @ ''% outside range''"
    by (simp add: checkRebalanceNeeded_def Let_def)
  from dev rsn show ?thesis
    by (simp add: toFixed_two_decimals)
qed

theorem checkRebalanceNeeded_reason_template_witness:
  "shouldRebalance
     (checkRebalanceNeeded spec_isTickInRange spec_calculatePriceDeviation (\<lambda>x. ''1e+21'')
        lowThresholdConfig (samplePool 0) (samplePosition 100 2000))
   \<and> reason
       (checkRebalanceNeeded spec_isTickInRange spec_calculatePriceDeviation (\<lambda>x. ''1e+21'')
          lowThresholdConfig (samplePool 0) (samplePosition 100 2000))
     = ''Price moved -0.99% outside range''"
proof -
  let ?R = "checkRebalanceNeeded spec_isTickInRange spec_calculatePriceDeviation (\<lambda>x. ''1e+21'')
              lowThresholdConfig (samplePool 0) (samplePosition 100 2000)"
  have out: "\<not> spec_isTickInRange (Pool.currentTick (samplePool 0))
                  (Position.tickLower (samplePosition 100 2000))
                  (Position.tickUpper (samplePosition 100 2000))"
    by (simp add: spec_isTickInRange_def samplePool_def samplePosition_def)
  have thr: "rebalanceThresholdPercent lowThresholdConfig
             \<le> \<bar>spec_calculatePriceDeviation (Pool.currentTick (samplePool 0))
                  (Position.tickLower (samplePosition 100 2000))
                  (Position.tickUpper (samplePosition 100 2000))\<bar>"
    using deviation_below_bounds(2)
    by (simp add: lowThresholdConfig_def sampleConfig_def samplePool_def samplePosition_def)
  from out thr have trig: "shouldRebalance ?R" by (rule triggered_reason(1))
  have fmt: "toFixed (\<lambda>x. ''1e+21'') (spec_calculatePriceDeviation 0 100 2000) 2 = ''-0.99''"
    using deviation_below_bounds by (simp add: toFixed_099)
  from checkRebalanceNeeded_reason_template [OF trig]
  have "reason ?R = ''Price moved ''
          @ toFixed (\<lambda>x. ''1e+21'') (spec_calculatePriceDeviation 0 100 2000) 2
          @ ''% outside range''"
    by (simp add: samplePool_def samplePosition_def)
  with trig show ?thesis by (simp add: fmt)
qed

text \<open>
  The reason does not name the breached boundary. With the signed deviation of the
  specification and a threshold of half a percent, the breach below the lower boundary
  (range [100, 2000], tick 0) reads \<^verbatim>\<open>Price moved -0.99% outside range\<close> and a
  breach above the upper boundary (range [-2000, -100], tick -1) reads
  \<^verbatim>\<open>Price moved 0.99% outside range\<close>; with a helper that reports the magnitude
  alone, the breach below the lower boundary reads exactly as the breach above.
\<close>

theorem checkRebalanceNeeded_reason_counterexample:
  "Pool.currentTick (samplePool 0) < Position.tickLower (samplePosition 100 2000)
   \<and> shouldRebalance
       (checkRebalanceNeeded spec_isTickInRange spec_calculatePriceDeviation (\<lambda>x. ''1e+21'')
          lowThresholdConfig (samplePool 0) (samplePosition 100 2000))
   \<and> reason
       (checkRebalanceNeeded spec_isTickInRange spec_calculatePriceDeviation (\<lambda>x. ''1e+21'')
          lowThresholdConfig (samplePool 0) (samplePosition 100 2000))
     = ''Price moved -0.99% outside range''
   \<and> Position.tickUpper (samplePosition (-2000) (-100)) \<le> Pool.currentTick (samplePool (-1))
   \<and> shouldRebalance
       (checkRebalanceNeeded spec_isTickInRange spec_calculatePriceDeviation (\<lambda>x. ''1e+21'')
          lowThresholdConfig (samplePool (-1)) (samplePosition (-2000) (-100)))
   \<and> reason
       (checkRebalanceNeeded spec_isTickInRange spec_calculatePriceDeviation (\<lambda>x. ''1e+21'')
          lowThresholdConfig (samplePool (-1)) (samplePosition (-2000) (-100)))
     = ''Price moved 0.99% outside range''
   \<and> shouldRebalance
       (checkRebalanceNeeded spec_isTickInRange magnitudeDeviation (\<lambda>x. ''1e+21'')
          lowThresholdConfig (samplePool 0) (samplePosition 100 2000))
   \<and> reason
       (checkRebalanceNeeded spec_isTickInRange magnitudeDeviation (\<lambda>x. ''1e+21'')
          lowThresholdConfig (samplePool 0) (samplePosition 100 2000))
     = ''Price moved 0.99% outside range''"
proof -
  have below: "Pool.currentTick (samplePool 0) < Position.tickLower (samplePosition 100 2000)"
    by (simp add: samplePool_def samplePosition_def)
  have above: "Position.tickUpper (samplePosition (-2000) (-100)) \<le> Pool.currentTick (samplePool (-1))"
    by (simp add: samplePool_def samplePosition_def)
  have out1: "\<not> spec_isTickInRange (Pool.currentTick (samplePool 0))
                  (Position.tickLower (samplePosition 100 2000))
                  (Position.tickUpper (samplePosition 100 2000))"
    by (simp add: spec_isTickInRange_def samplePool_def samplePosition_def)
  have out2: "\<not> spec_isTickInRange (Pool.currentTick (samplePool (-1)))
                  (Position.tickLower (samplePosition (-2000) (-100)))
                  (Position.tickUpper (samplePosition (-2000) (-100)))"
    by (simp add: spec_isTickInRange_def samplePool_def samplePosition_def)
  have thr1: "rebalanceThresholdPercent lowThresholdConfig
             \<le> \<bar>spec_calculatePriceDeviation (Pool.currentTick (samplePool 0))
                  (Position.tickLower (samplePosition 100 2000))
                  (Position.tickUpper (samplePosition 100 2000))\<bar>"
    using deviation_below_bounds(2)
    by (simp add: lowThresholdConfig_def sampleConfig_def samplePool_def samplePosition_def)
  have thr2: "rebalanceThresholdPercent lowThresholdConfig
             \<le> \<bar>spec_calculatePriceDeviation (Pool.currentTick (samplePool (-1)))
                  (Position.tickLower (samplePosition (-2000) (-100)))
                  (Position.tickUpper (samplePosition (-2000) (-100)))\<bar>"
    using deviation_above_bounds(2)
    by (simp add: lowThresholdConfig_def sampleConfig_def samplePool_def samplePosition_def)
  have thr3: "rebalanceThresholdPercent lowThresholdConfig
             \<le> \<bar>magnitudeDeviation (Pool.currentTick (samplePool 0))
                  (Position.tickLower (samplePosition 100 2000))
                  (Position.tickUpper (samplePosition 100 2000))\<bar>"
    using deviation_below_bounds(2)
    by (simp add: magnitudeDeviation_def lowThresholdConfig_def sampleConfig_def samplePool_def
          samplePosition_def)
  have fmt1: "toFixed (\<lambda>x. ''1e+21'') (spec_calculatePriceDeviation 0 100 2000) 2 = ''-0.99''"
    using deviation_below_bounds by (simp add: toFixed_099)
  have fmt2: "toFixed (\<lambda>x. ''1e+21'') (spec_calculatePriceDeviation (-1) (-2000) (-100)) 2 = ''0.99''"
    using deviation_above_bounds by (simp add: toFixed_099)
  have fmt3: "toFixed (\<lambda>x. ''1e+21'') (magnitudeDeviation 0 100 2000) 2 = ''0.99''"
    using deviation_below_bounds by (simp add: toFixed_099 magnitudeDeviation_def)
  have r1: "reason
       (checkRebalanceNeeded spec_isTickInRange spec_calculatePriceDeviation (\<lambda>x. ''1e+21'')
          lowThresholdConfig (samplePool 0) (samplePosition 100 2000))
     = ''Price moved -0.99% outside range''"
    using triggered_reason(2) [where isTickInRange = spec_isTickInRange and calculatePriceDeviation = spec_calculatePriceDeviation
        and NumberToString = "\<lambda>x. ''1e+21''" and config = lowThresholdConfig
        and pool = "samplePool 0" and position = "samplePosition 100 2000", OF out1 thr1]
    by (simp add: samplePool_def samplePosition_def fmt1)
  have r2: "reason
       (checkRebalanceNeeded spec_isTickInRange spec_calculatePriceDeviation (\<lambda>x. ''1e+21'')
          lowThresholdConfig (samplePool (-1)) (samplePosition (-2000) (-100)))
     = ''Price moved 0.99% outside range''"
    using triggered_reason(2) [where isTickInRange = spec_isTickInRange and calculatePriceDeviation = spec_calculatePriceDeviation
        and NumberToString = "\<lambda>x. ''1e+21''" and config = lowThresholdConfig
        and pool = "samplePool (-1)" and position = "samplePosition (-2000) (-100)", OF out2 thr2]
    by (simp add: samplePool_def samplePosition_def fmt2)
  have r3: "reason
       (checkRebalanceNeeded spec_isTickInRange magnitudeDeviation (\<lambda>x. ''1e+21'')
          lowThresholdConfig (samplePool 0) (samplePosition 100 2000))
     = ''Price moved 0.99% outside range''"
    using triggered_reason(2) [where isTickInRange = spec_isTickInRange and calculatePriceDeviation = magnitudeDeviation
        and NumberToString = "\<lambda>x. ''1e+21''" and config = lowThresholdConfig
        and pool = "samplePool 0" and position = "samplePosition 100 2000", OF out1 thr3]
    by (simp add: samplePool_def samplePosition_def fmt3)
  from below above r1 r2 r3
    triggered_reason(1) [where isTickInRange = spec_isTickInRange and calculatePriceDeviation = spec_calculatePriceDeviation
        and NumberToString = "\<lambda>x. ''1e+21''" and config = lowThresholdConfig
        and pool = "samplePool 0" and position = "samplePosition 100 2000", OF out1 thr1]
    triggered_reason(1) [where isTickInRange = spec_isTickInRange and calculatePriceDeviation = spec_calculatePriceDeviation
        and NumberToString = "\<lambda>x. ''1e+21''" and config = lowThresholdConfig
        and pool = "samplePool (-1)" and position = "samplePosition (-2000) (-100)", OF out2 thr2]
    triggered_reason(1) [where isTickInRange = spec_isTickInRange and calculatePriceDeviation = magnitudeDeviation
        and NumberToString = "\<lambda>x. ''1e+21''" and config = lowThresholdConfig
        and pool = "samplePool 0" and position = "samplePosition 100 2000", OF out1 thr3]
  show ?thesis by blast
qed

text \<open>
  C10. On each of its three branches the decision echoes its inputs: the current tick
  of the pool snapshot and the two boundaries of the position snapshot, for every
  implementation of the helpers and every configuration.
\<close>

theorem checkRebalanceNeeded_echo:
  "RebalanceDecision.currentTick
     (checkRebalanceNeeded isTickInRange calculatePriceDeviation NumberToString config pool position)
     = Pool.currentTick pool
   \<and> RebalanceDecision.tickLower
     (checkRebalanceNeeded isTickInRange calculatePriceDeviation NumberToString config pool position)
     = Position.tickLower position
   \<and> RebalanceDecision.tickUpper
     (checkRebalanceNeeded isTickInRange calculatePriceDeviation NumberToString config pool position)
     = Position.tickUpper position"
  by (simp add: checkRebalanceNeeded_def Let_def)

section \<open>Properties of the expected amounts\<close>

text \<open>
  C3. Once the two conversions and the two boundary prices have been obtained, with the
  lower boundary price below the upper one, \<^verbatim>\<open>calculateExpectedAmounts\<close> is in
  exactly one of three regimes, chosen by comparing the current square-root price with
  the boundary prices: at or below the lower boundary, token A over the whole interval
  and zero for B; at or above the upper boundary, zero for A and token B over the whole
  interval; strictly between, token A from the current price to the upper boundary and
  token B from the lower boundary to the current price. An error thrown by a helper is
  the result of the call.
\<close>

theorem calculateExpectedAmounts_regimes:
  assumes cur: "BigInt (currentSqrtPrice pool) = Inr sqrtPriceCurrent"
      and lo: "tickToSqrtPrice (Position.tickLower position) = Inr sqrtPriceLower"
      and up: "tickToSqrtPrice (Position.tickUpper position) = Inr sqrtPriceUpper"
      and liq: "BigInt (liquidity position) = Inr L"
      and ord: "sqrtPriceLower < sqrtPriceUpper"
  shows "(sqrtPriceCurrent \<le> sqrtPriceLower \<longrightarrow>
            calculateExpectedAmounts BigInt tickToSqrtPrice getA getB pool position
            = (case getA sqrtPriceLower sqrtPriceUpper L of
                 Inl e \<Rightarrow> Inl e
               | Inr a \<Rightarrow> Inr \<lparr> amountA = a, amountB = 0 \<rparr>))
       \<and> (sqrtPriceCurrent \<ge> sqrtPriceUpper \<longrightarrow>
            calculateExpectedAmounts BigInt tickToSqrtPrice getA getB pool position
            = (case getB sqrtPriceLower sqrtPriceUpper L of
                 Inl e \<Rightarrow> Inl e
               | Inr b \<Rightarrow> Inr \<lparr> amountA = 0, amountB = b \<rparr>))
       \<and> (sqrtPriceLower < sqrtPriceCurrent \<and> sqrtPriceCurrent < sqrtPriceUpper \<longrightarrow>
            calculateExpectedAmounts BigInt tickToSqrtPrice getA getB pool position
            = (case getA sqrtPriceCurrent sqrtPriceUpper L of
                 Inl e \<Rightarrow> Inl e
               | Inr a \<Rightarrow>
                   (case getB sqrtPriceLower sqrtPriceCurrent L of
                      Inl e \<Rightarrow> Inl e
                    | Inr b \<Rightarrow> Inr \<lparr> amountA = a, amountB = b \<rparr>)))"
  using ord by (simp add: calculateExpectedAmounts_def cur lo up liq)

theorem calculateExpectedAmounts_regimes_witness:
  "sampleBigInt (currentSqrtPrice (samplePool 0)) = Inr 18446744073709551616
   \<and> sampleTickToSqrtPrice (Position.tickLower (samplePosition (-1000) 1000))
       = Inr 17547129613991598781
   \<and> sampleTickToSqrtPrice (Position.tickUpper (samplePosition (-1000) 1000))
       = Inr 19392480388906836277
   \<and> sampleBigInt (liquidity (samplePosition (-1000) 1000)) = Inr 1000000
   \<and> calculateExpectedAmounts sampleBigInt sampleTickToSqrtPrice sampleAmountA sampleAmountB
          (samplePool 0) (samplePosition (-1000) 1000)
       = Inr \<lparr> amountA = 48768, amountB = 48768 \<rparr>"
proof -
  have cur: "sampleBigInt (currentSqrtPrice (samplePool 0)) = Inr 18446744073709551616"
    by (simp add: samplePool_def sampleBigInt_def)
  have lo: "sampleTickToSqrtPrice (Position.tickLower (samplePosition (-1000) 1000))
            = Inr 17547129613991598781"
    by (simp add: samplePosition_def sampleTickToSqrtPrice_def)
  have up: "sampleTickToSqrtPrice (Position.tickUpper (samplePosition (-1000) 1000))
            = Inr 19392480388906836277"
    by (simp add: samplePosition_def sampleTickToSqrtPrice_def)
  have liq: "sampleBigInt (liquidity (samplePosition (-1000) 1000)) = Inr 1000000"
    by (simp add: samplePosition_def sampleBigInt_def)
  have ord: "(17547129613991598781::int) < 19392480388906836277" by simp
  from calculateExpectedAmounts_regimes [OF cur lo up liq ord, of sampleAmountA sampleAmountB]
  have "calculateExpectedAmounts sampleBigInt sampleTickToSqrtPrice sampleAmountA sampleAmountB
          (samplePool 0) (samplePosition (-1000) 1000)
       = Inr \<lparr> amountA = 48768, amountB = 48768 \<rparr>"
    by (simp add: sampleAmountA_def sampleAmountB_def)
  with cur lo up liq show ?thesis by blast
qed

section \<open>Properties of tickIndexToSqrtPriceX64\<close>

text \<open>
  C4. \<^verbatim>\<open>tickIndexToSqrtPriceX64\<close> throws the out-of-bounds error for every tick
  below \<^verbatim>\<open>MIN_TICK = -443636\<close> or above \<^verbatim>\<open>MAX_TICK = 443636\<close>, in particular
  for 443637 and -443637, and returns a value for every tick within the bounds; an
  out-of-bounds tick never yields a value, so nothing is clamped into range.
\<close>

theorem tickIndexToSqrtPriceX64_bounds:
  "(tick < MIN_TICK \<or> tick > MAX_TICK \<longrightarrow>
      tickIndexToSqrtPriceX64 tick = Inl (TickOutOfBounds tick (-443636) 443636))
   \<and> (MIN_TICK \<le> tick \<and> tick \<le> MAX_TICK \<longrightarrow> (\<exists>v. tickIndexToSqrtPriceX64 tick = Inr v))
   \<and> tickIndexToSqrtPriceX64 443637 = Inl (TickOutOfBounds 443637 (-443636) 443636)
   \<and> tickIndexToSqrtPriceX64 (-443637) = Inl (TickOutOfBounds (-443637) (-443636) 443636)
   \<and> MIN_TICK = -443636 \<and> MAX_TICK = 443636"
  by (simp add: tickIndexToSqrtPriceX64_def MIN_TICK_def MAX_TICK_def Let_def)

theorem tickIndexToSqrtPriceX64_bounds_witness:
  "(500000 > MAX_TICK
    \<and> tickIndexToSqrtPriceX64 500000 = Inl (TickOutOfBounds 500000 (-443636) 443636))
   \<and> (MIN_TICK \<le> 1000 \<and> 1000 \<le> MAX_TICK \<and> (\<exists>v. tickIndexToSqrtPriceX64 1000 = Inr v))"
proof -
  have hi: "500000 > MAX_TICK" by (simp add: MAX_TICK_def)
  have mid: "MIN_TICK \<le> 1000 \<and> 1000 \<le> MAX_TICK" by (simp add: MIN_TICK_def MAX_TICK_def)
  from tickIndexToSqrtPriceX64_bounds [of 500000] hi
  have a: "tickIndexToSqrtPriceX64 500000 = Inl (TickOutOfBounds 500000 (-443636) 443636)"
    by blast
  from tickIndexToSqrtPriceX64_bounds [of 1000] mid
  have b: "\<exists>v. tickIndexToSqrtPriceX64 1000 = Inr v"
    by blast
  from hi mid a b show ?thesis by blast
qed

subsection \<open>Tick 0\<close>

lemma round_half_up_of_int: "round_half_up (of_int n) = n"
  by (simp add: round_half_up_def)

lemma finalise_1: "finalise 1 = 1"
  by (simp add: finalise_def Decimal_precision_def round_half_up_def Let_def power_int_minus
        field_simps)

lemma floor_log10_Q64: "\<lfloor>log 10 18446744073709551616\<rfloor> = 19"
proof -
  have "(10::real) powr 19 \<le> 18446744073709551616" by simp
  then have a: "19 \<le> log 10 18446744073709551616" by (subst le_log_iff) simp_all
  have "(18446744073709551616::real) < 10 powr 20" by simp
  then have b: "log 10 18446744073709551616 < 20" by (subst log_less_iff) simp_all
  from a b show ?thesis by (simp add: floor_eq_iff)
qed

lemma round_half_up_Q64: "round_half_up 18446744073709551616 = 18446744073709551616"
  using round_half_up_of_int [of 18446744073709551616] by simp

lemma finalise_Q64: "finalise 18446744073709551616 = 18446744073709551616"
  using floor_log10_Q64 round_half_up_Q64
  by (simp add: finalise_def Decimal_precision_def Let_def)

text \<open>
  C5. At tick 0 the result is exactly \<open>2^64 = 18446744073709551616\<close>: the power
  is 1, its square root is 1, and \<open>2^64\<close> has 20 significant digits, which the
  precision of the decimal arithmetic holds exactly.
\<close>

theorem tickIndexToSqrtPriceX64_zero:
  "tickIndexToSqrtPriceX64 0 = Inr (2 ^ 64) \<and> (2 ^ 64 :: int) = 18446744073709551616"
  by (simp add: tickIndexToSqrtPriceX64_def MIN_TICK_def MAX_TICK_def Decimal_pow_def
       Decimal_sqrt_def Decimal_mul_def BN_of_toFixed0_def finalise_1 finalise_Q64
       round_half_up_Q64)

subsection \<open>Accuracy of the decimal arithmetic\<close>

lemma floor_half_error: "\<bar>of_int \<lfloor>z + 1 / 2\<rfloor> - z\<bar> \<le> 1 / (2::real)"
proof -
  have "of_int \<lfloor>z + 1 / 2\<rfloor> \<le> z + 1 / 2" by (rule of_int_floor_le)
  moreover have "z + 1 / 2 < of_int \<lfloor>z + 1 / 2\<rfloor> + 1" by linarith
  ultimately show ?thesis by linarith
qed

lemma round_half_up_error: "\<bar>of_int (round_half_up y) - y\<bar> \<le> 1 / 2"
proof (cases "0 \<le> y")
  case True
  then show ?thesis using floor_half_error [of y] by (simp add: round_half_up_def)
next
  case False
  have "\<bar>of_int \<lfloor>- y + 1 / 2\<rfloor> - (- y)\<bar> \<le> 1 / (2::real)" by (rule floor_half_error)
  then have "\<bar>- of_int \<lfloor>- y + 1 / 2\<rfloor> - y\<bar> \<le> 1 / (2::real)" by linarith
  with False show ?thesis by (simp add: round_half_up_def)
qed

lemma power_int_10_floor_log_le:
  assumes "x \<noteq> 0"
  shows "10 powi \<lfloor>log 10 \<bar>x\<bar>\<rfloor> \<le> \<bar>x\<bar>"
proof -
  from assms have pos: "0 < \<bar>x\<bar>" by simp
  have "of_int \<lfloor>log 10 \<bar>x\<bar>\<rfloor> \<le> log 10 \<bar>x\<bar>" by simp
  with pos have "10 powr (of_int \<lfloor>log 10 \<bar>x\<bar>\<rfloor>) \<le> \<bar>x\<bar>"
    by (subst (asm) le_log_iff) simp_all
  then show ?thesis by (simp add: powr_real_of_int')
qed

lemma finalise_error:
  assumes "x \<noteq> 0"
  shows "\<bar>finalise x - x\<bar> \<le> \<bar>x\<bar> / (2 * 10 ^ 19)"
proof -
  define e where "e = \<lfloor>log 10 \<bar>x\<bar>\<rfloor>"
  define u :: real where "u = 10 powi (e - 19)"
  have u_pos: "0 < u" by (simp add: u_def)
  have fin: "finalise x = of_int (round_half_up (x / u)) * u"
    using assms by (simp add: finalise_def Decimal_precision_def Let_def e_def u_def)
  have "finalise x - x = (of_int (round_half_up (x / u)) - x / u) * u"
    using u_pos by (simp add: fin field_simps)
  then have "\<bar>finalise x - x\<bar> = \<bar>of_int (round_half_up (x / u)) - x / u\<bar> * u"
    using u_pos by (simp add: abs_mult)
  also have "\<dots> \<le> 1 / 2 * u"
    using round_half_up_error [of "x / u"] u_pos by (intro mult_right_mono) simp_all
  also have "u = 10 powi e / 10 ^ 19"
    by (simp add: u_def power_int_diff)
  also have "1 / 2 * (10 powi e / 10 ^ 19) \<le> 1 / 2 * (\<bar>x\<bar> / 10 ^ 19)"
    using power_int_10_floor_log_le [OF assms] by (simp add: e_def)
  finally show ?thesis by simp
qed


lemma finalise_rel:
  assumes "0 < x"
  shows "x * (1 - 1 / 10 ^ 19) \<le> finalise x" and "finalise x \<le> x * (1 + 1 / 10 ^ 19)"
proof -
  define e where "e = x / 10 ^ 19"
  from assms have "\<bar>finalise x - x\<bar> \<le> x / (2 * 10 ^ 19)"
    using finalise_error [of x] by simp
  also have "x / (2 * 10 ^ 19) = e / 2" by (simp add: e_def)
  finally have *: "\<bar>finalise x - x\<bar> \<le> e / 2" .
  have e: "0 < e" using assms by (simp add: e_def)
  have l: "x * (1 - 1 / 10 ^ 19) = x - e" by (simp add: e_def algebra_simps)
  have u: "x * (1 + 1 / 10 ^ 19) = x + e" by (simp add: e_def algebra_simps)
  from * e show "x * (1 - 1 / 10 ^ 19) \<le> finalise x" unfolding l by linarith
  from * e show "finalise x \<le> x * (1 + 1 / 10 ^ 19)" unfolding u by linarith
qed

lemma finalise_pos: "0 < x \<Longrightarrow> 0 < finalise x"
proof -
  assume x: "0 < x"
  then have "0 < x * (1 - 1 / 10 ^ 19)" by simp
  with finalise_rel(1) [OF x] show ?thesis by linarith
qed

lemma sqrt_rel_lower:
  assumes "0 \<le> y" "0 \<le> k" "k \<le> 1" "y * k \<le> a"
  shows "sqrt y * k \<le> sqrt a"
proof -
  have "k\<^sup>2 \<le> k" using assms(2,3) by (simp add: power2_eq_square mult_left_le)
  then have "k \<le> sqrt k" by (rule real_le_rsqrt)
  then have "sqrt y * k \<le> sqrt y * sqrt k" using assms(1) by (simp add: mult_left_mono)
  also have "\<dots> = sqrt (y * k)" by (simp add: real_sqrt_mult)
  also have "\<dots> \<le> sqrt a" using assms(4) by simp
  finally show ?thesis .
qed

lemma sqrt_rel_upper:
  assumes "0 \<le> y" "1 \<le> k" "a \<le> y * k"
  shows "sqrt a \<le> sqrt y * k"
proof -
  have "k \<le> k\<^sup>2" using assms(2) by (simp add: power2_eq_square)
  then have "sqrt k \<le> k" using assms(2) by (intro real_le_lsqrt) simp_all
  have "sqrt a \<le> sqrt (y * k)" using assms(3) by simp
  also have "\<dots> = sqrt y * sqrt k" by (simp add: real_sqrt_mult)
  also have "\<dots> \<le> sqrt y * k" using \<open>sqrt k \<le> k\<close> assms(1) by (simp add: mult_left_mono)
  finally show ?thesis .
qed


lemma Decimal_pow_2_64: "Decimal_pow 2 64 = 18446744073709551616"
  by (simp add: Decimal_pow_def finalise_Q64)

lemma decimal_sqrtPriceX64_bounds:
  fixes t :: int
  defines "x \<equiv> Decimal_mul (Decimal_sqrt (Decimal_pow (10001 / 10000) t)) (Decimal_pow 2 64)"
  shows "exactSqrtPriceX64 t * (1 - 3 / 10 ^ 19) \<le> x"
    and "x \<le> exactSqrtPriceX64 t * (1 + 4 / 10 ^ 19)"
proof -
  define P :: real where "P = (10001 / 10000) powi t"
  define a where "a = finalise P"
  define b where "b = finalise (sqrt a)"
  define Q :: real where "Q = 18446744073709551616"
  define k1 :: real where "k1 = 1 - 1 / 10 ^ 19"
  define k2 :: real where "k2 = 1 + 1 / 10 ^ 19"
  have k1: "0 \<le> k1" "k1 \<le> 1" and k2: "1 \<le> k2" by (simp_all add: k1_def k2_def)
  have P: "0 < P" by (simp add: P_def)
  have Q: "0 < Q" by (simp add: Q_def)
  have x: "x = finalise (b * Q)"
    by (simp add: x_def Decimal_mul_def Decimal_sqrt_def Decimal_pow_2_64 b_def a_def
          Decimal_pow_def [of "10001 / 10000"] P_def Q_def)
  have a_lo: "P * k1 \<le> a" and a_hi: "a \<le> P * k2"
    using finalise_rel [OF P] by (simp_all add: a_def k1_def k2_def)
  have a: "0 < a" using P by (simp add: a_def finalise_pos)
  then have sa: "0 < sqrt a" by simp
  have sa_lo: "sqrt P * k1 \<le> sqrt a"
    using P k1 a_lo by (intro sqrt_rel_lower) simp_all
  have sa_hi: "sqrt a \<le> sqrt P * k2"
    using P k2 a_hi by (intro sqrt_rel_upper) simp_all
  have b_lo: "sqrt a * k1 \<le> b" and b_hi: "b \<le> sqrt a * k2"
    using finalise_rel [OF sa] by (simp_all add: b_def k1_def k2_def)
  have b: "0 < b" using sa by (simp add: b_def finalise_pos)
  with Q have bQ: "0 < b * Q" by simp
  have x_lo: "b * Q * k1 \<le> x" and x_hi: "x \<le> b * Q * k2"
    using finalise_rel [OF bQ] by (simp_all add: x k1_def k2_def)
  have "sqrt P * k1 * k1 \<le> sqrt a * k1" using sa_lo k1 by (intro mult_right_mono) simp_all
  with b_lo have "sqrt P * k1 * k1 \<le> b" by linarith
  then have "sqrt P * k1 * k1 * Q * k1 \<le> b * Q * k1"
    using Q k1 by (intro mult_right_mono) simp_all
  with x_lo have lo: "sqrt P * Q * (k1 * k1 * k1) \<le> x" by (simp add: mult_ac)
  have "sqrt a * k2 \<le> sqrt P * k2 * k2" using sa_hi k2 by (intro mult_right_mono) simp_all
  with b_hi have "b \<le> sqrt P * k2 * k2" by linarith
  then have "b * Q * k2 \<le> sqrt P * k2 * k2 * Q * k2"
    using Q k2 by (intro mult_right_mono) simp_all
  with x_hi have hi: "x \<le> sqrt P * Q * (k2 * k2 * k2)" by (simp add: mult_ac)
  have v: "exactSqrtPriceX64 t = sqrt P * Q"
    by (simp add: exactSqrtPriceX64_def P_def Q_def)
  have vpos: "0 \<le> sqrt P * Q" using P Q by simp
  have "1 - 3 / 10 ^ 19 \<le> k1 * k1 * k1" by (simp add: k1_def)
  then have "sqrt P * Q * (1 - 3 / 10 ^ 19) \<le> sqrt P * Q * (k1 * k1 * k1)"
    using vpos by (rule mult_left_mono)
  with lo show "exactSqrtPriceX64 t * (1 - 3 / 10 ^ 19) \<le> x" unfolding v by linarith
  have "k2 * k2 * k2 \<le> 1 + 4 / 10 ^ 19" by (simp add: k2_def)
  then have "sqrt P * Q * (k2 * k2 * k2) \<le> sqrt P * Q * (1 + 4 / 10 ^ 19)"
    using vpos by (rule mult_left_mono)
  with hi show "x \<le> exactSqrtPriceX64 t * (1 + 4 / 10 ^ 19)" unfolding v by linarith
qed


lemma tick_base_power_le_exp: "((10001 / 10000) :: real) ^ n \<le> exp (real n / 10000)"
proof -
  have "1 + 1 / 10000 \<le> exp (1 / 10000 :: real)" by (rule exp_ge_add_one_self)
  then have "((10001 / 10000) :: real) ^ n \<le> exp (1 / 10000) ^ n"
    by (intro power_mono) simp_all
  also have "\<dots> = exp (real n * (1 / 10000))" by (rule exp_of_nat_mult [symmetric])
  also have "\<dots> = exp (real n / 10000)" by simp
  finally show ?thesis .
qed

lemma exp_45_le: "exp (45 :: real) \<le> 3 ^ 45"
proof -
  have "exp (45 :: real) = exp (real 45 * 1)" by simp
  also have "\<dots> = exp 1 ^ 45" by (rule exp_of_nat_mult)
  also have "\<dots> \<le> 3 ^ 45" using exp_le by (intro power_mono) simp_all
  finally show ?thesis .
qed

lemma tick_base_powi_lower:
  assumes "MIN_TICK \<le> t"
  shows "1 / 3 ^ 45 \<le> ((10001 / 10000) :: real) powi t"
proof (cases "0 \<le> t")
  case True
  then have "1 \<le> ((10001 / 10000) :: real) powi t" by simp
  moreover have "1 / 3 ^ 45 \<le> (1 :: real)" by simp
  ultimately show ?thesis by linarith
next
  case False
  define n where "n = nat (- t)"
  from False assms have n: "t = - int n" "n \<le> 443636" by (simp_all add: n_def MIN_TICK_def)
  have "((10001 / 10000) :: real) ^ n \<le> exp (real n / 10000)" by (rule tick_base_power_le_exp)
  also have "\<dots> \<le> exp 45" using n(2) by simp
  also have "\<dots> \<le> 3 ^ 45" by (rule exp_45_le)
  finally have "((10001 / 10000) :: real) ^ n \<le> 3 ^ 45" .
  moreover have "0 < ((10001 / 10000) :: real) ^ n" by simp
  ultimately have "1 / 3 ^ 45 \<le> 1 / ((10001 / 10000) :: real) ^ n"
    by (intro divide_left_mono) simp_all
  then show ?thesis by (simp add: n(1) power_int_minus field_simps)
qed

lemma exactSqrtPriceX64_lower:
  assumes "MIN_TICK \<le> t"
  shows "10 ^ 8 \<le> exactSqrtPriceX64 t"
proof -
  have "(10 ^ 8 / 2 ^ 64 :: real)\<^sup>2 \<le> 1 / 3 ^ 45" by (simp add: power2_eq_square)
  also have "\<dots> \<le> (10001 / 10000) powi t" using assms by (rule tick_base_powi_lower)
  finally have "10 ^ 8 / 2 ^ 64 \<le> sqrt ((10001 / 10000) powi t)" by (rule real_le_rsqrt)
  then have "10 ^ 8 / 2 ^ 64 * 2 ^ 64 \<le> sqrt ((10001 / 10000) powi t) * 2 ^ 64"
    by (intro mult_right_mono) simp_all
  then show ?thesis by (simp add: exactSqrtPriceX64_def)
qed

lemma exactSqrtPriceX64_step:
  assumes "t1 < t2"
  shows "exactSqrtPriceX64 t1 * (1000049 / 1000000) \<le> exactSqrtPriceX64 t2"
proof -
  let ?p = "10001 / 10000 :: real"
  have "(1000049 / 1000000 :: real)\<^sup>2 \<le> ?p" by (simp add: power2_eq_square)
  then have s: "1000049 / 1000000 \<le> sqrt ?p" by (rule real_le_rsqrt)
  have "?p powi (t1 + 1) \<le> ?p powi t2" using assms by (intro power_int_increasing) simp_all
  then have "?p powi t1 * ?p \<le> ?p powi t2" by (simp add: power_int_add)
  then have "sqrt (?p powi t1 * ?p) \<le> sqrt (?p powi t2)" by (rule real_sqrt_le_mono)
  then have "sqrt (?p powi t1) * sqrt ?p \<le> sqrt (?p powi t2)" by (simp only: real_sqrt_mult)
  moreover have "sqrt (?p powi t1) * (1000049 / 1000000) \<le> sqrt (?p powi t1) * sqrt ?p"
    using s by (intro mult_left_mono) simp_all
  ultimately have "sqrt (?p powi t1) * (1000049 / 1000000) \<le> sqrt (?p powi t2)" by linarith
  then have "sqrt (?p powi t1) * (1000049 / 1000000) * 2 ^ 64 \<le> sqrt (?p powi t2) * 2 ^ 64"
    by (intro mult_right_mono) simp_all
  then show ?thesis by (simp add: exactSqrtPriceX64_def mult_ac)
qed


lemma tickIndexToSqrtPriceX64_in_bounds:
  assumes "MIN_TICK \<le> t" "t \<le> MAX_TICK"
  shows "tickIndexToSqrtPriceX64 t
         = Inr (round_half_up
             (Decimal_mul (Decimal_sqrt (Decimal_pow (10001 / 10000) t)) (Decimal_pow 2 64)))"
  using assms by (simp add: tickIndexToSqrtPriceX64_def Let_def BN_of_toFixed0_def)

lemma tickIndexToSqrtPriceX64_near_exact:
  assumes "MIN_TICK \<le> t" "t \<le> MAX_TICK"
  obtains S where "tickIndexToSqrtPriceX64 t = Inr S"
    and "exactSqrtPriceX64 t * (1 - 3 / 10 ^ 19) - 1 / 2 \<le> of_int S"
    and "of_int S \<le> exactSqrtPriceX64 t * (1 + 4 / 10 ^ 19) + 1 / 2"
proof -
  define x where
    "x = Decimal_mul (Decimal_sqrt (Decimal_pow (10001 / 10000) t)) (Decimal_pow 2 64)"
  have r: "tickIndexToSqrtPriceX64 t = Inr (round_half_up x)"
    using assms by (simp add: tickIndexToSqrtPriceX64_in_bounds x_def)
  have lo: "exactSqrtPriceX64 t * (1 - 3 / 10 ^ 19) \<le> x"
    and hi: "x \<le> exactSqrtPriceX64 t * (1 + 4 / 10 ^ 19)"
    unfolding x_def by (rule decimal_sqrtPriceX64_bounds)+
  have "\<bar>of_int (round_half_up x) - x\<bar> \<le> 1 / 2" by (rule round_half_up_error)
  with lo hi have "exactSqrtPriceX64 t * (1 - 3 / 10 ^ 19) - 1 / 2 \<le> of_int (round_half_up x)"
    and "of_int (round_half_up x) \<le> exactSqrtPriceX64 t * (1 + 4 / 10 ^ 19) + 1 / 2"
    by linarith+
  with r show ?thesis by (rule that)
qed

text \<open>
  C6. \<^verbatim>\<open>tickIndexToSqrtPriceX64\<close> is strictly increasing on the ticks within the
  bounds. Each arithmetic step is within one unit in the twentieth significant digit of
  the exact result, so the returned integer is within \<open>1/2 + 4 * 10^-19 * v\<close> of the
  exact value \<open>v = sqrt (1.0001^tick) * 2^64\<close>, while one tick multiplies \<open>v\<close>, which
  is at least \<open>10^8\<close>, by more than \<open>1.000049\<close>.
\<close>

theorem tickIndexToSqrtPriceX64_strict_mono:
  assumes "MIN_TICK \<le> t1" "t1 < t2" "t2 \<le> MAX_TICK"
  shows "\<exists>a b. tickIndexToSqrtPriceX64 t1 = Inr a \<and> tickIndexToSqrtPriceX64 t2 = Inr b \<and> a < b"
proof -
  from assms have b1: "MIN_TICK \<le> t1" "t1 \<le> MAX_TICK" and b2: "MIN_TICK \<le> t2" "t2 \<le> MAX_TICK"
    by simp_all
  from b1 obtain a where a: "tickIndexToSqrtPriceX64 t1 = Inr a"
    and a_hi: "of_int a \<le> exactSqrtPriceX64 t1 * (1 + 4 / 10 ^ 19) + 1 / 2"
    by (rule tickIndexToSqrtPriceX64_near_exact)
  from b2 obtain b where b: "tickIndexToSqrtPriceX64 t2 = Inr b"
    and b_lo: "exactSqrtPriceX64 t2 * (1 - 3 / 10 ^ 19) - 1 / 2 \<le> of_int b"
    by (rule tickIndexToSqrtPriceX64_near_exact)
  define v where "v = exactSqrtPriceX64 t1"
  have v: "10 ^ 8 \<le> v" unfolding v_def using b1(1) by (rule exactSqrtPriceX64_lower)
  have "v * (1000049 / 1000000) \<le> exactSqrtPriceX64 t2"
    unfolding v_def using assms(2) by (rule exactSqrtPriceX64_step)
  then have "v * (1000049 / 1000000) * (1 - 3 / 10 ^ 19) \<le> exactSqrtPriceX64 t2 * (1 - 3 / 10 ^ 19)"
    by (intro mult_right_mono) simp_all
  with b_lo have "v * (1000049 / 1000000) * (1 - 3 / 10 ^ 19) - 1 / 2 \<le> of_int b" by linarith
  moreover from a_hi have "of_int a \<le> v * (1 + 4 / 10 ^ 19) + 1 / 2" by (simp add: v_def)
  moreover have "v * (1 + 4 / 10 ^ 19) + 1 / 2 < v * (1000049 / 1000000) * (1 - 3 / 10 ^ 19) - 1 / 2"
    using v by (simp add: algebra_simps)
  ultimately have "(of_int a :: real) < of_int b" by linarith
  then have "a < b" by simp
  with a b show ?thesis by blast
qed

theorem tickIndexToSqrtPriceX64_strict_mono_witness:
  "MIN_TICK \<le> 0 \<and> (0::int) < 1 \<and> 1 \<le> MAX_TICK
   \<and> (\<exists>a b. tickIndexToSqrtPriceX64 0 = Inr a \<and> tickIndexToSqrtPriceX64 1 = Inr b \<and> a < b)"
proof -
  have lo: "MIN_TICK \<le> 0" by (simp add: MIN_TICK_def)
  have hi: "1 \<le> MAX_TICK" by (simp add: MAX_TICK_def)
  have lt: "(0::int) < 1" by simp
  from tickIndexToSqrtPriceX64_strict_mono [OF lo lt hi] lo hi lt show ?thesis by blast
qed

subsection \<open>The round trip through sqrtPriceX64ToTickIndex\<close>

lemma round_half_even_error: "\<bar>of_int (round_half_even y) - y\<bar> \<le> 1 / 2"
proof -
  have "of_int \<lfloor>y\<rfloor> \<le> y" "y < of_int \<lfloor>y\<rfloor> + 1" by linarith+
  then show ?thesis
    by (auto simp: round_half_even_def Let_def)
qed

lemma power_int_2_floor_log_le:
  assumes "x \<noteq> 0"
  shows "2 powi \<lfloor>log 2 \<bar>x\<bar>\<rfloor> \<le> \<bar>x\<bar>"
proof -
  from assms have pos: "0 < \<bar>x\<bar>" by simp
  have "of_int \<lfloor>log 2 \<bar>x\<bar>\<rfloor> \<le> log 2 \<bar>x\<bar>" by simp
  with pos have "2 powr (of_int \<lfloor>log 2 \<bar>x\<bar>\<rfloor>) \<le> \<bar>x\<bar>"
    by (subst (asm) le_log_iff) simp_all
  then show ?thesis by (simp add: powr_real_of_int')
qed

lemma Decimal_toNumber_error: "\<bar>Decimal_toNumber x - x\<bar> \<le> \<bar>x\<bar> / 2 ^ 53"
proof (cases "x = 0")
  case True
  then show ?thesis by (simp add: Decimal_toNumber_def)
next
  case False
  define e where "e = \<lfloor>log 2 \<bar>x\<bar>\<rfloor>"
  define u :: real where "u = 2 powi (e - 52)"
  have u_pos: "0 < u" by (simp add: u_def)
  have num: "Decimal_toNumber x = of_int (round_half_even (x / u)) * u"
    using False by (simp add: Decimal_toNumber_def Let_def e_def u_def)
  have "Decimal_toNumber x - x = (of_int (round_half_even (x / u)) - x / u) * u"
    using u_pos by (simp add: num field_simps)
  then have "\<bar>Decimal_toNumber x - x\<bar> = \<bar>of_int (round_half_even (x / u)) - x / u\<bar> * u"
    using u_pos by (simp add: abs_mult)
  also have "\<dots> \<le> 1 / 2 * u"
    using round_half_even_error [of "x / u"] u_pos by (intro mult_right_mono) simp_all
  also have "u = 2 powi e / 2 ^ 52"
    by (simp add: u_def power_int_diff)
  also have "1 / 2 * (2 powi e / 2 ^ 52) \<le> 1 / 2 * (\<bar>x\<bar> / 2 ^ 52)"
    using power_int_2_floor_log_le [OF False] by (simp add: e_def)
  finally show ?thesis by simp
qed

lemma finalise_abs_error: "\<bar>finalise x - x\<bar> \<le> \<bar>x\<bar> / 10 ^ 19"
proof (cases "x = 0")
  case True
  then show ?thesis by (simp add: finalise_def)
next
  case False
  then have "\<bar>finalise x - x\<bar> \<le> \<bar>x\<bar> / (2 * 10 ^ 19)" by (rule finalise_error)
  also have "\<dots> \<le> \<bar>x\<bar> / 10 ^ 19" by (simp add: field_simps)
  finally show ?thesis .
qed

lemma tick_base_quarter: "(100002 / 100000 :: real) \<le> (10001 / 10000) powr (1 / 4)"
proof -
  let ?c = "100002 / 100000 :: real"
  have "?c ^ 4 \<le> 10001 / 10000" by (simp add: power4_eq_xxxx)
  then have "(?c ^ 4) powr (1 / 4) \<le> (10001 / 10000) powr (1 / 4)"
    by (intro powr_mono2) simp_all
  moreover have "(?c ^ 4) powr (1 / 4) = ?c"
    by (simp add: powr_powr flip: powr_numeral)
  ultimately show ?thesis by simp
qed

lemma log_tick_base_near:
  fixes t :: int and y :: real
  assumes lo: "(10001 / 10000) powi t * (100000 / 100002) \<le> y"
      and hi: "y \<le> (10001 / 10000) powi t * (100002 / 100000)"
  shows "of_int t - 1 / 4 \<le> log (10001 / 10000) y" and "log (10001 / 10000) y \<le> of_int t + 1 / 4"
proof -
  let ?p = "10001 / 10000 :: real"
  have P: "0 < ?p powi t" by simp
  then have "0 < ?p powi t * (100000 / 100002)" by simp
  with lo have y: "0 < y" by linarith
  have pt: "?p powr (of_int t) = ?p powi t" by (simp add: powr_real_of_int')
  have q: "100002 / 100000 \<le> ?p powr (1 / 4)" by (rule tick_base_quarter)
  have "?p powi t * (100002 / 100000) \<le> ?p powi t * ?p powr (1 / 4)"
    using q P by (intro mult_left_mono) simp_all
  with hi have "y \<le> ?p powi t * ?p powr (1 / 4)" by linarith
  also have "\<dots> = ?p powr (of_int t + 1 / 4)" by (simp add: powr_add pt)
  finally have "log ?p y \<le> log ?p (?p powr (of_int t + 1 / 4))"
    using y by (subst log_le_cancel_iff) simp_all
  then show "log ?p y \<le> of_int t + 1 / 4" by simp
  have "?p powr (- (1 / 4)) = 1 / ?p powr (1 / 4)" by (simp add: powr_minus_divide)
  also have "\<dots> \<le> 1 / (100002 / 100000)" using q by (intro divide_left_mono) simp_all
  finally have q': "?p powr (- (1 / 4)) \<le> 100000 / 100002" by simp
  have "?p powr (of_int t - 1 / 4) = ?p powi t * ?p powr (- (1 / 4))"
    using powr_add [of ?p "of_int t" "- (1 / 4)"] by (simp add: pt)
  also have "\<dots> \<le> ?p powi t * (100000 / 100002)"
    using q' P by (intro mult_left_mono) simp_all
  also have "\<dots> \<le> y" by (rule lo)
  finally have "log ?p (?p powr (of_int t - 1 / 4)) \<le> log ?p y"
    using y by (subst log_le_cancel_iff) simp_all
  then show "of_int t - 1 / 4 \<le> log ?p y" by simp
qed


lemma exactSqrtPriceX64_square:
  "(exactSqrtPriceX64 t / 2 ^ 64)\<^sup>2 = (10001 / 10000) powi t"
  by (simp add: exactSqrtPriceX64_def)

lemma sqrtPriceX64ToTickIndex_near_exact:
  fixes S t :: int
  assumes t: "\<bar>t\<bar> \<le> 400000"
      and lo: "exactSqrtPriceX64 t * (1 - 1 / 10 ^ 8) \<le> of_int S"
      and hi: "of_int S \<le> exactSqrtPriceX64 t * (1 + 1 / 10 ^ 8)"
  shows "sqrtPriceX64ToTickIndex S = t"
proof -
  let ?p = "10001 / 10000 :: real"
  define Q :: real where "Q = 18446744073709551616"
  define s0 where "s0 = exactSqrtPriceX64 t / Q"
  define e1 :: real where "e1 = 1 - 1 / 10 ^ 8"
  define e2 :: real where "e2 = 1 + 1 / 10 ^ 8"
  define k1 :: real where "k1 = 1 - 1 / 10 ^ 19"
  define k2 :: real where "k2 = 1 + 1 / 10 ^ 19"
  define r where "r = of_int S / Q"
  define d where "d = finalise r"
  define y where "y = finalise (d\<^sup>2)"
  define L where "L = log ?p y"
  define T where "T = finalise L"
  define N where "N = Decimal_toNumber T"
  have num: "0 < e1" "0 < k1" "0 < e2" "0 < k2" by (simp_all add: e1_def e2_def k1_def k2_def)
  have Q: "0 < Q" by (simp add: Q_def)
  have s0: "0 < s0" by (simp add: s0_def exactSqrtPriceX64_def Q_def)
  have s0sq: "s0\<^sup>2 = ?p powi t"
    using exactSqrtPriceX64_square [of t] by (simp add: s0_def Q_def)
  have result: "sqrtPriceX64ToTickIndex S = Math_round N"
    by (simp add: sqrtPriceX64ToTickIndex_def Let_def Decimal_div_def Decimal_pow_2_64
          Decimal_pow_def [of _ 2] Decimal_log_def N_def T_def L_def y_def d_def r_def Q_def)
  \<comment> \<open>the quotient\<close>
  have r_lo: "s0 * e1 \<le> r" and r_hi: "r \<le> s0 * e2"
    using lo hi Q by (simp_all add: r_def s0_def e1_def e2_def field_simps)
  have "0 < s0 * e1" using s0 num by simp
  with r_lo have r: "0 < r" by linarith
  have d_lo: "r * k1 \<le> d" and d_hi: "d \<le> r * k2"
    using finalise_rel [OF r] by (simp_all add: d_def k1_def k2_def)
  have d: "0 < d" using r by (simp add: d_def finalise_pos)
  have "s0 * e1 * k1 \<le> r * k1" using r_lo num by (intro mult_right_mono) simp_all
  with d_lo have d_lo': "s0 * (e1 * k1) \<le> d" by (simp add: mult_ac)
  have "r * k2 \<le> s0 * e2 * k2" using r_hi num by (intro mult_right_mono) simp_all
  with d_hi have d_hi': "d \<le> s0 * (e2 * k2)" by (simp add: mult_ac)
  \<comment> \<open>the square\<close>
  have "(s0 * (e1 * k1))\<^sup>2 \<le> d\<^sup>2"
    using d_lo' s0 num by (intro power_mono) simp_all
  then have sq_lo: "?p powi t * (e1 * k1)\<^sup>2 \<le> d\<^sup>2" by (simp add: power_mult_distrib s0sq)
  have "d\<^sup>2 \<le> (s0 * (e2 * k2))\<^sup>2"
    using d_hi' d by (intro power_mono) simp_all
  then have sq_hi: "d\<^sup>2 \<le> ?p powi t * (e2 * k2)\<^sup>2" by (simp add: power_mult_distrib s0sq)
  have d2: "0 < d\<^sup>2" using d by simp
  have y_lo: "d\<^sup>2 * k1 \<le> y" and y_hi: "y \<le> d\<^sup>2 * k2"
    using finalise_rel [OF d2] by (simp_all add: y_def k1_def k2_def)
  have "?p powi t * (e1 * k1)\<^sup>2 * k1 \<le> d\<^sup>2 * k1" using sq_lo num by (intro mult_right_mono) simp_all
  with y_lo have y_lo': "?p powi t * ((e1 * k1)\<^sup>2 * k1) \<le> y" by (simp add: mult_ac)
  have "d\<^sup>2 * k2 \<le> ?p powi t * (e2 * k2)\<^sup>2 * k2" using sq_hi num by (intro mult_right_mono) simp_all
  with y_hi have y_hi': "y \<le> ?p powi t * ((e2 * k2)\<^sup>2 * k2)" by (simp add: mult_ac)
  have c_lo: "100000 / 100002 \<le> (e1 * k1)\<^sup>2 * k1"
    by (simp add: e1_def k1_def power2_eq_square)
  have c_hi: "(e2 * k2)\<^sup>2 * k2 \<le> 100002 / 100000"
    by (simp add: e2_def k2_def power2_eq_square)
  have P: "0 \<le> ?p powi t" by simp
  have "?p powi t * (100000 / 100002) \<le> ?p powi t * ((e1 * k1)\<^sup>2 * k1)"
    using c_lo P by (rule mult_left_mono)
  with y_lo' have Y_lo: "?p powi t * (100000 / 100002) \<le> y" by linarith
  have "?p powi t * ((e2 * k2)\<^sup>2 * k2) \<le> ?p powi t * (100002 / 100000)"
    using c_hi P by (rule mult_left_mono)
  with y_hi' have Y_hi: "y \<le> ?p powi t * (100002 / 100000)" by linarith
  \<comment> \<open>the logarithm and the two roundings\<close>
  have L_lo: "of_int t - 1 / 4 \<le> L" and L_hi: "L \<le> of_int t + 1 / 4"
    unfolding L_def using Y_lo Y_hi by (rule log_tick_base_near)+
  from t have tr: "\<bar>real_of_int t\<bar> \<le> 400000" by linarith
  with L_lo L_hi have La: "\<bar>L\<bar> \<le> 400001" by linarith
  have "\<bar>T - L\<bar> \<le> \<bar>L\<bar> / 10 ^ 19" unfolding T_def by (rule finalise_abs_error)
  also have "\<dots> \<le> 400001 / 10 ^ 19" using La by (simp add: field_simps)
  finally have TL: "\<bar>T - L\<bar> \<le> 1 / 100" by simp
  with La have Ta: "\<bar>T\<bar> \<le> 400002" by linarith
  have "\<bar>N - T\<bar> \<le> \<bar>T\<bar> / 2 ^ 53" unfolding N_def by (rule Decimal_toNumber_error)
  also have "\<dots> \<le> 400002 / 2 ^ 53" using Ta by (simp add: field_simps)
  finally have NT: "\<bar>N - T\<bar> \<le> 1 / 100" by simp
  from L_lo L_hi TL NT have "of_int t \<le> N + 1 / 2" and "N + 1 / 2 < of_int t + 1"
    by linarith+
  then have "Math_round N = t" unfolding Math_round_def by (simp add: floor_eq_iff)
  with result show ?thesis by simp
qed


text \<open>
  C7. For every tick from -400000 to 400000, converting the tick to a square-root
  price and back yields a tick that differs from it by at most 1. (The integer
  square-root price is within \<open>10^-8\<close> of the exact one in relative terms, which moves
  the logarithm by far less than half a tick.)
\<close>

theorem tick_round_trip:
  assumes "-400000 \<le> t" "t \<le> 400000"
  shows "\<exists>S. tickIndexToSqrtPriceX64 t = Inr S \<and> \<bar>sqrtPriceX64ToTickIndex S - t\<bar> \<le> 1"
proof -
  from assms have b: "MIN_TICK \<le> t" "t \<le> MAX_TICK" by (simp_all add: MIN_TICK_def MAX_TICK_def)
  from b obtain S where S: "tickIndexToSqrtPriceX64 t = Inr S"
    and S_lo: "exactSqrtPriceX64 t * (1 - 3 / 10 ^ 19) - 1 / 2 \<le> of_int S"
    and S_hi: "of_int S \<le> exactSqrtPriceX64 t * (1 + 4 / 10 ^ 19) + 1 / 2"
    by (rule tickIndexToSqrtPriceX64_near_exact)
  define v where "v = exactSqrtPriceX64 t"
  have v: "10 ^ 8 \<le> v" unfolding v_def using b(1) by (rule exactSqrtPriceX64_lower)
  have "v * (1 - 1 / 10 ^ 8) \<le> v * (1 - 3 / 10 ^ 19) - 1 / 2"
    using v by (simp add: algebra_simps)
  with S_lo have lo: "exactSqrtPriceX64 t * (1 - 1 / 10 ^ 8) \<le> of_int S" by (simp add: v_def)
  have "v * (1 + 4 / 10 ^ 19) + 1 / 2 \<le> v * (1 + 1 / 10 ^ 8)"
    using v by (simp add: algebra_simps)
  with S_hi have hi: "of_int S \<le> exactSqrtPriceX64 t * (1 + 1 / 10 ^ 8)" by (simp add: v_def)
  from assms have "\<bar>t\<bar> \<le> 400000" by simp
  then have "sqrtPriceX64ToTickIndex S = t" using lo hi by (rule sqrtPriceX64ToTickIndex_near_exact)
  with S show ?thesis by simp
qed

theorem tick_round_trip_witness:
  "(-400000::int) \<le> 1000 \<and> (1000::int) \<le> 400000
   \<and> (\<exists>S. tickIndexToSqrtPriceX64 1000 = Inr S \<and> \<bar>sqrtPriceX64ToTickIndex S - 1000\<bar> \<le> 1)"
proof -
  have lo: "(-400000::int) \<le> 1000" and hi: "(1000::int) \<le> 400000" by simp_all
  from tick_round_trip [OF lo hi] lo hi show ?thesis by blast
qed

section \<open>Properties of calculateTickRange\<close>

lemma alignDown_dvd: "spacing dvd alignDown tick spacing"
  by (simp add: alignDown_def)

lemma alignUp_dvd: "spacing dvd alignUp tick spacing"
  by (simp add: alignUp_def)

lemma alignDown_le: "0 < spacing \<Longrightarrow> alignDown tick spacing \<le> tick"
proof -
  assume "0 < spacing"
  then have "0 \<le> tick mod spacing" by simp
  moreover have "tick div spacing * spacing + tick mod spacing = tick" by simp
  ultimately show ?thesis unfolding alignDown_def by linarith
qed

lemma alignDown_gt: "0 < spacing \<Longrightarrow> tick < alignDown tick spacing + spacing"
proof -
  assume "0 < spacing"
  then have "tick mod spacing < spacing" by simp
  moreover have "tick div spacing * spacing + tick mod spacing = tick" by simp
  ultimately show ?thesis unfolding alignDown_def by linarith
qed

lemma alignUp_alignDown: "alignUp tick spacing = - alignDown (- tick) spacing"
  by (simp add: alignUp_def alignDown_def)

lemma alignUp_ge: "0 < spacing \<Longrightarrow> tick \<le> alignUp tick spacing"
  using alignDown_le [of spacing "- tick"] by (simp add: alignUp_alignDown)

lemma alignUp_lt: "0 < spacing \<Longrightarrow> alignUp tick spacing < tick + spacing"
  using alignDown_gt [of spacing "- tick"] by (simp add: alignUp_alignDown)

lemma multiples_gap:
  fixes s :: int
  assumes "0 < s" "s dvd a" "s dvd b" "a < b"
  shows "a + s \<le> b"
proof -
  from assms(2,3) obtain k l where a: "a = s * k" and b: "b = s * l"
    unfolding dvd_def by blast
  with assms(1,4) have "k < l" by (simp add: mult_less_cancel_left_pos)
  then have "k + 1 \<le> l" by simp
  with assms(1) have "s * (k + 1) \<le> s * l" by (simp add: mult_le_cancel_left_pos)
  with a b show ?thesis by (simp add: algebra_simps)
qed

lemma alignedRange_inside:
  assumes s: "0 < spacing"
      and r: "alignedRange tick halfWidth spacing = Inr r"
  shows "TickRange.tickLower r mod spacing = 0 \<and> TickRange.tickUpper r mod spacing = 0
       \<and> TickRange.tickLower r < tick \<and> tick < TickRange.tickUpper r"
proof -
  let ?rawL = "alignDown (tick - halfWidth) spacing"
  let ?rawU = "alignUp (tick + halfWidth) spacing"
  let ?L = "if ?rawL = tick then ?rawL - spacing else ?rawL"
  let ?U = "if ?rawU = tick then ?rawU + spacing else ?rawU"
  from r have lower: "TickRange.tickLower r = ?L" and upper: "TickRange.tickUpper r = ?U"
    and ord: "?L < ?U"
    by (auto simp: alignedRange_def Let_def split: if_splits)
  have dL0: "spacing dvd ?rawL" by (rule alignDown_dvd)
  have dU0: "spacing dvd ?rawU" by (rule alignUp_dvd)
  have dL: "spacing dvd ?L" using dL0 by (cases "?rawL = tick") simp_all
  have dU: "spacing dvd ?U" using dU0 by (cases "?rawU = tick") simp_all
  have L1: "?rawL \<le> tick - halfWidth" using s by (rule alignDown_le)
  have L2: "tick - halfWidth < ?rawL + spacing" using s by (rule alignDown_gt)
  have U1: "tick + halfWidth \<le> ?rawU" using s by (rule alignUp_ge)
  have U2: "?rawU < tick + halfWidth + spacing" using s by (rule alignUp_lt)
  have gap: "?L + spacing \<le> ?U"
    using s dL dU ord by (rule multiples_gap)
  have "?L < tick"
  proof (rule ccontr)
    assume "\<not> ?L < tick"
    then have a: "?rawL \<noteq> tick" "tick < ?rawL" using s by (auto split: if_splits)
    then have h: "halfWidth < 0" using L1 by linarith
    show False
    proof (cases "?rawU = tick")
      case True
      then have "spacing dvd tick" using dU0 by simp
      with s dL0 a have "tick + spacing \<le> ?rawL" by (intro multiples_gap) auto
      with ord a True show False by simp
    next
      case False
      with gap a have "?rawL + spacing \<le> ?rawU" by simp
      with U2 h a show False by linarith
    qed
  qed
  moreover have "tick < ?U"
  proof (rule ccontr)
    assume "\<not> tick < ?U"
    then have a: "?rawU \<noteq> tick" "?rawU < tick" using s by (auto split: if_splits)
    then have h: "halfWidth < 0" using U1 by linarith
    show False
    proof (cases "?rawL = tick")
      case True
      then have "spacing dvd tick" using dL0 by simp
      with s dU0 a have "?rawU + spacing \<le> tick" by (intro multiples_gap) auto
      with ord a True show False by simp
    next
      case False
      with gap a have "?rawL + spacing \<le> ?rawU" by simp
      with L2 h a show False by linarith
    qed
  qed
  ultimately show ?thesis
    using dL dU by (simp only: lower upper) (simp add: mod_eq_0_iff_dvd)
qed

lemma halfWidthTicks_nonneg: "0 \<le> widthPercent \<Longrightarrow> 0 \<le> halfWidthTicks widthPercent"
proof -
  assume w: "0 \<le> widthPercent"
  then have "0 \<le> ln (1 + widthPercent / 200)" by simp
  moreover have "0 < ln (10001 / 10000 :: real)" by simp
  ultimately have "0 \<le> ln (1 + widthPercent / 200) / ln (10001 / 10000)" by simp
  then show ?thesis unfolding halfWidthTicks_def round_def by linarith
qed

lemma alignedRange_returns:
  assumes s: "0 < spacing" and h: "0 \<le> halfWidth"
      and lo: "MIN_TICK + 2 * spacing \<le> tick - halfWidth"
      and hi: "tick + halfWidth + 2 * spacing \<le> MAX_TICK"
  shows "\<exists>r. alignedRange tick halfWidth spacing = Inr r"
proof -
  let ?rawL = "alignDown (tick - halfWidth) spacing"
  let ?rawU = "alignUp (tick + halfWidth) spacing"
  have L1: "?rawL \<le> tick - halfWidth" using s by (rule alignDown_le)
  have L2: "tick - halfWidth < ?rawL + spacing" using s by (rule alignDown_gt)
  have U1: "tick + halfWidth \<le> ?rawU" using s by (rule alignUp_ge)
  have U2: "?rawU < tick + halfWidth + spacing" using s by (rule alignUp_lt)
  from s h lo hi L1 L2 U1 U2 show ?thesis
    by (simp add: alignedRange_def Let_def)
qed

lemma halfWidthTicks_0: "halfWidthTicks 0 = 0"
  by (simp add: halfWidthTicks_def)

lemma jsRemainder_aligned:
  assumes "0 < spacing" "x mod spacing = 0"
  shows "jsRemainder x spacing = Some 0"
proof -
  from assms(2) have "spacing dvd x" by (simp add: mod_eq_0_iff_dvd)
  then have "\<bar>spacing\<bar> dvd \<bar>x\<bar>" by simp
  then have "\<bar>x\<bar> mod \<bar>spacing\<bar> = 0" by (simp add: mod_eq_0_iff_dvd)
  with assms(1) show ?thesis by (simp add: jsRemainder_def)
qed

text \<open>
  C8. With a positive tick spacing, every range that \<^verbatim>\<open>calculateTickRange\<close>
  returns has both bounds on exact multiples of the spacing and holds the current tick
  strictly inside, never on a bound; such a range passes the caller's alignment check.
  A range is returned whenever the width is not negative and the aligned bounds have
  room within [MIN_TICK, MAX_TICK]: two spacings beyond each raw bound suffice.
\<close>

theorem calculateTickRange_aligned:
  assumes "0 < spacing"
  shows "(\<forall>r. calculateTickRange tick widthPercent spacing = Inr r \<longrightarrow>
            TickRange.tickLower r mod spacing = 0 \<and> TickRange.tickUpper r mod spacing = 0
          \<and> TickRange.tickLower r < tick \<and> tick < TickRange.tickUpper r
          \<and> checkNewRangeAligned r spacing = Inr r)
       \<and> (0 \<le> widthPercent
          \<and> MIN_TICK + 2 * spacing \<le> tick - halfWidthTicks widthPercent
          \<and> tick + halfWidthTicks widthPercent + 2 * spacing \<le> MAX_TICK
          \<longrightarrow> (\<exists>r. calculateTickRange tick widthPercent spacing = Inr r))"
proof -
  have "TickRange.tickLower r mod spacing = 0 \<and> TickRange.tickUpper r mod spacing = 0
          \<and> TickRange.tickLower r < tick \<and> tick < TickRange.tickUpper r
          \<and> checkNewRangeAligned r spacing = Inr r"
    if r: "calculateTickRange tick widthPercent spacing = Inr r" for r
  proof -
    from r have "alignedRange tick (halfWidthTicks widthPercent) spacing = Inr r"
      by (simp add: calculateTickRange_def)
    with assms have inside: "TickRange.tickLower r mod spacing = 0 \<and> TickRange.tickUpper r mod spacing = 0
          \<and> TickRange.tickLower r < tick \<and> tick < TickRange.tickUpper r"
      by (rule alignedRange_inside)
    with assms have "jsRemainder (TickRange.tickLower r) spacing = Some 0"
      and "jsRemainder (TickRange.tickUpper r) spacing = Some 0"
      by (simp_all add: jsRemainder_aligned)
    then have "checkNewRangeAligned r spacing = Inr r" by (simp add: checkNewRangeAligned_def)
    with inside show ?thesis by simp
  qed
  moreover have "\<exists>r. calculateTickRange tick widthPercent spacing = Inr r"
    if "0 \<le> widthPercent"
      and "MIN_TICK + 2 * spacing \<le> tick - halfWidthTicks widthPercent"
      and "tick + halfWidthTicks widthPercent + 2 * spacing \<le> MAX_TICK"
    using assms that alignedRange_returns [of spacing "halfWidthTicks widthPercent" tick]
      halfWidthTicks_nonneg [of widthPercent]
    by (simp add: calculateTickRange_def)
  ultimately show ?thesis by blast
qed

theorem calculateTickRange_aligned_witness:
  "(0::int) < 60
   \<and> calculateTickRange 120 0 60 = Inr \<lparr> TickRange.tickLower = 60, TickRange.tickUpper = 180 \<rparr>
   \<and> (60::int) mod 60 = 0 \<and> (180::int) mod 60 = 0 \<and> (60::int) < 120 \<and> (120::int) < 180
   \<and> checkNewRangeAligned \<lparr> TickRange.tickLower = 60, TickRange.tickUpper = 180 \<rparr> 60
       = Inr \<lparr> TickRange.tickLower = 60, TickRange.tickUpper = 180 \<rparr>"
proof -
  have s: "(0::int) < 60" by simp
  have r: "calculateTickRange 120 0 60
           = Inr \<lparr> TickRange.tickLower = 60, TickRange.tickUpper = 180 \<rparr>"
    by (simp add: calculateTickRange_def halfWidthTicks_0 alignedRange_def alignDown_def
          alignUp_def MIN_TICK_def MAX_TICK_def Let_def)
  from calculateTickRange_aligned [OF s, of 120 0] r
  have "TickRange.tickLower \<lparr> TickRange.tickLower = 60, TickRange.tickUpper = 180 \<rparr> mod 60 = 0
      \<and> TickRange.tickUpper \<lparr> TickRange.tickLower = 60, TickRange.tickUpper = 180 \<rparr> mod 60 = 0
      \<and> TickRange.tickLower \<lparr> TickRange.tickLower = 60, TickRange.tickUpper = 180 \<rparr> < 120
      \<and> 120 < TickRange.tickUpper \<lparr> TickRange.tickLower = 60, TickRange.tickUpper = 180 \<rparr>
      \<and> checkNewRangeAligned \<lparr> TickRange.tickLower = 60, TickRange.tickUpper = 180 \<rparr> 60
          = Inr \<lparr> TickRange.tickLower = 60, TickRange.tickUpper = 180 \<rparr>"
    by blast
  with s r show ?thesis by simp
qed

end
